theory Spec2Isabelle
  imports Main "HOL-Library.Word"
begin

unbundle bit_operations_syntax

section \<open>Machine types, status codes and constants\<close>

type_synonym u8 = "8 word"
type_synonym u16 = "16 word"
type_synonym u32 = "32 word"

text \<open>The \<open>QStatus\<close> values that ArdpProtocol.cc returns or passes to callbacks.\<close>

datatype QStatus =
    ER_OK
  | ER_FAIL
  | ER_WOULDBLOCK
  | ER_OUT_OF_MEMORY
  | ER_INVALID_DATA
  | ER_ARDP_BACKPRESSURE
  | ER_ARDP_TTL_EXPIRED
  | ER_ARDP_INVALID_STATE

text \<open>
  Ways in which the C++ leaves defined behaviour or aborts. \<open>AssertFailed\<close> is an
  \<open>assert\<close> that fails in a build with assertions enabled; the others are a division
  by zero, an array access outside its bounds, the use of a timer that is NULL or has
  been deleted, a call through a NULL callback pointer, and a shift by the full width
  of the operand. Every function that can do one of these returns \<open>fault + result\<close>.
\<close>

datatype fault =
  AssertFailed | DivideByZero | OutOfBounds | DanglingTimer | NullCallback | ShiftTooFar

definition ARDP_FLAG_ACK :: u8 where "ARDP_FLAG_ACK = 0x02"
definition ARDP_FLAG_EACK :: u8 where "ARDP_FLAG_EACK = 0x04"
definition ARDP_FLAG_RST :: u8 where "ARDP_FLAG_RST = 0x08"
definition ARDP_FLAG_FRAG :: u8 where "ARDP_FLAG_FRAG = 0x20"
definition ARDP_FLAG_VER :: u8 where "ARDP_FLAG_VER = 0x40"


definition ARDP_TIMWAIT :: u32 where "ARDP_TIMWAIT = 1000"
definition ARDP_CONNECT_TIMEOUT :: u32 where "ARDP_CONNECT_TIMEOUT = 10000"
definition ARDP_RETRANSMIT_TIMEOUT :: u32 where "ARDP_RETRANSMIT_TIMEOUT = 500"
definition ARDP_URGENT_RETRANSMIT_TIMEOUT :: u32 where
  "ARDP_URGENT_RETRANSMIT_TIMEOUT = drop_bit 2 ARDP_RETRANSMIT_TIMEOUT"
definition ARDP_RETRANSMIT_RETRY :: u16 where "ARDP_RETRANSMIT_RETRY = 4"
definition ARDP_RECV_TIMEOUT :: u32 where "ARDP_RECV_TIMEOUT = 300"
definition ARDP_RECV_RETRY :: u16 where "ARDP_RECV_RETRY = 4"
definition ARDP_DISCONNECT_RETRY :: u16 where "ARDP_DISCONNECT_RETRY = 0"
definition ARDP_CONNECT_RETRY :: u16 where "ARDP_CONNECT_RETRY = 0"

text \<open>\<open>SEQ32_LT\<close> and \<open>SEQ32_LET\<close>: the difference is read as a signed 32-bit value.\<close>

definition SEQ32_LT :: "u32 \<Rightarrow> u32 \<Rightarrow> bool" where
  "SEQ32_LT a b = (sint (a - b) < 0)"

definition SEQ32_LET :: "u32 \<Rightarrow> u32 \<Rightarrow> bool" where
  "SEQ32_LET a b = (sint (a - b) < 0 \<or> a = b)"

definition IN_RANGE :: "u32 \<Rightarrow> u32 \<Rightarrow> u32 \<Rightarrow> bool" where
  "IN_RANGE beg sz p =
     ((beg + sz > beg \<and> p \<ge> beg \<and> p < beg + sz) \<or>
      (beg + sz < beg \<and> \<not> (p < beg \<and> p \<ge> beg + sz)))"

section \<open>Data model\<close>

text \<open>
  The fields of \<open>ArdpHeader\<close> that the engine reads and writes. The header is kept in
  host order: every \<open>htonl\<close>/\<open>htons\<close> on a store is undone by the \<open>ntohl\<close>/\<open>ntohs\<close> on the
  load. The header's own ttl field and the EACK words are not modelled.
\<close>

record ArdpHeader =
  h_flags :: u8
  h_hlen :: u8
  h_src :: u16
  h_dst :: u16
  h_dlen :: u16
  h_seq :: u32
  h_ack :: u32
  h_window :: u16
  h_som :: u32
  h_fcnt :: u16

datatype ArdpTimerType =
  DISCONNECT_TIMER | CONNECT_TIMER | RETRANSMIT_TIMER | RECV_TIMER | WINDOW_CHECK_TIMER

text \<open>The five timeout handlers a timer can point to.\<close>

datatype ArdpTimeoutHandler =
  H_Disconnect | H_Connect | H_Retransmit | H_Recv | H_WindowCheck

text \<open>
  The \<open>void* context\<close> of a timer: NULL, the address of a send slot, of a receive slot,
  or (for the window-check timer) of the timer itself.
\<close>

datatype tctx = CtxNull | CtxSnd nat | CtxRcv nat | CtxTimer nat

text \<open>
  A timer is heap-allocated by \<open>AddTimer\<close> and freed by \<open>DeleteTimer\<close>; \<open>t_id\<close> stands
  for its address. Addresses are never reused, so a pointer to a deleted timer is
  found to dangle.
\<close>

record ArdpTimer =
  t_id :: nat
  t_handler :: "ArdpTimeoutHandler option"
  t_type :: ArdpTimerType
  t_context :: tctx
  t_delta :: u32
  t_when :: u32
  t_retry :: u16

text \<open>A payload pointer is an address; 0 is NULL.\<close>

record ArdpSndBuf =
  sb_data :: nat
  sb_datalen :: u32
  sb_hdr :: ArdpHeader
  sb_timer :: "nat option"
  sb_ttl :: u32
  sb_tStart :: u32
  sb_onTheWire :: bool
  sb_inUse :: bool
  sb_hdrlen :: u16

text \<open>
  Modelled from the spec: \<open>ArdpRcvBuf\<close> is declared in ArdpProtocol.h; its fields are
  those the engine uses (section 3). The \<open>next\<close> link of slot \<open>i\<close> is set once by
  \<open>InitRcv\<close> to slot \<open>(i + 1) % segmax\<close> and is computed instead of stored.
\<close>

record ArdpRcvBuf =
  rb_seq :: u32
  rb_datalen :: u16
  rb_inUse :: bool
  rb_isDelivered :: bool
  rb_som :: u32
  rb_fcnt :: u16
  rb_timer :: "nat option"

datatype ArdpState = CLOSED | LISTEN | SYN_SENT | SYN_RCVD | OPEN | CLOSE_WAIT

text \<open>
  The connection record, with the nested structs \<open>SND\<close>, \<open>SBUF\<close>, \<open>RCV\<close>, \<open>RBUF\<close> and
  \<open>rcvMsk\<close> flattened into prefixed fields. \<open>timers\<close> is the connection's timer list in
  list order.
\<close>

record ArdpConnRecord =
  STATE :: ArdpState
  c_passive :: bool
  SND_NXT :: u32
  SND_UNA :: u32
  SND_MAX :: u32
  SND_ISS :: u32
  SBUF_MAX :: u32
  SBUF_snd :: "ArdpSndBuf list"
  SBUF_maxDlen :: u16
  SBUF_pending :: u16
  RCV_CUR :: u32
  RCV_MAX :: u32
  RCV_IRS :: u32
  RBUF_MAX :: u32
  RBUF_rcv :: "ArdpRcvBuf list"
  RBUF_first :: u32
  RBUF_last :: u32
  RBUF_window :: u32
  local :: u16
  foreign :: u16
  window :: u16
  minSendWindow :: u16
  sndHdrLen :: u16
  rcvHdrLen :: u16
  rcvMsk_mask :: "u32 list"
  rcvMsk_sz :: u16
  rcvMsk_fixedSz :: u16
  remoteMskSz :: u16
  lastSeen :: u32
  timers :: "ArdpTimer list"

record ArdpGlobalConfig =
  connectTimeout :: u32
  persistTimeout :: u32
  probeTimeout :: u32
  timewait :: u32

text \<open>Which of the six callback slots of the handle are non-NULL.\<close>

record ArdpCallbacks =
  AcceptCb :: bool
  ConnectCb :: bool
  DisconnectCb :: bool
  RecvCb :: bool
  SendCb :: bool
  SendWindowCb :: bool

text \<open>
  The handle. \<open>conns\<close> is the list of active connections in list order; the first
  component of an entry stands for the address of the record.
\<close>

record ArdpHandle =
  config :: ArdpGlobalConfig
  cb :: ArdpCallbacks
  accepting :: bool
  conns :: "(nat \<times> ArdpConnRecord) list"

section \<open>The world outside the engine\<close>

datatype sendmsg_result = Sent | EAgain | EOther

text \<open>What the engine does to the outside: datagrams handed to the socket and callbacks.\<close>

datatype event =
    EvSendMsg ArdpHeader nat u32 sendmsg_result
  | EvSendCb nat u32 QStatus
  | EvRecvCb nat bool
  | EvConnectCb bool QStatus
  | EvDisconnectCb QStatus
  | EvAcceptCb bool
  | EvSendWindowCb u16 QStatus

text \<open>
  The clock, the socket and the receiving user are oracles: \<open>clock w n\<close> is what the
  \<open>n\<close>-th call of \<open>TimeNow\<close> reads, \<open>sockSend w n\<close> how the \<open>n\<close>-th \<open>sendmsg\<close> ends,
  \<open>recvAnswer w n\<close> what the \<open>n\<close>-th \<open>RecvCb\<close> returns. \<open>trace\<close> is the list of events so
  far, oldest first; \<open>nextTimer\<close> is the next fresh timer address.
\<close>

record world =
  clock :: "nat \<Rightarrow> u32"
  ticks :: nat
  sockSend :: "nat \<Rightarrow> sendmsg_result"
  nsend :: nat
  recvAnswer :: "nat \<Rightarrow> bool"
  nrecv :: nat
  trace :: "event list"
  nextTimer :: nat

definition TimeNow :: "world \<Rightarrow> u32 \<times> world" where
  "TimeNow w = (clock w (ticks w), w\<lparr>ticks := Suc (ticks w)\<rparr>)"

section \<open>Timers\<close>

definition AddTimer ::
  "ArdpConnRecord \<Rightarrow> world \<Rightarrow> ArdpTimerType \<Rightarrow> ArdpTimeoutHandler option \<Rightarrow> tctx \<Rightarrow> u32 \<Rightarrow> u16
     \<Rightarrow> nat \<times> ArdpConnRecord \<times> world" where
  "AddTimer conn w ty handler context timeout retry =
     (let tid = nextTimer w;
          (now, w1) = TimeNow (w\<lparr>nextTimer := Suc tid\<rparr>);
          timer = \<lparr>t_id = tid, t_handler = handler, t_type = ty,
                   t_context = (if ty = WINDOW_CHECK_TIMER then CtxTimer tid else context),
                   t_delta = timeout, t_when = now + timeout, t_retry = retry\<rparr>
      in (tid, conn\<lparr>timers := timers conn @ [timer]\<rparr>, w1))"

definition find_timer :: "ArdpTimer list \<Rightarrow> nat \<Rightarrow> ArdpTimer option" where
  "find_timer ts tid = find (\<lambda>t. t_id t = tid) ts"

text \<open>\<open>DeleteTimer\<close> unlinks and frees the timer; deleting a freed timer is a fault.\<close>

definition DeleteTimer :: "ArdpConnRecord \<Rightarrow> nat \<Rightarrow> fault + ArdpConnRecord" where
  "DeleteTimer conn tid =
     (case find_timer (timers conn) tid of
        None \<Rightarrow> Inl DanglingTimer
      | Some _ \<Rightarrow> Inr (conn\<lparr>timers := filter (\<lambda>t. t_id t \<noteq> tid) (timers conn)\<rparr>))"

section \<open>Sending\<close>

definition SendMsg :: "ArdpHeader \<Rightarrow> nat \<Rightarrow> u32 \<Rightarrow> world \<Rightarrow> QStatus \<times> world" where
  "SendMsg h data datalen w =
     (let r = sockSend w (nsend w);
          w1 = w\<lparr>nsend := Suc (nsend w), trace := trace w @ [EvSendMsg h data datalen r]\<rparr>
      in (case r of Sent \<Rightarrow> ER_OK | EAgain \<Rightarrow> ER_WOULDBLOCK | EOther \<Rightarrow> ER_FAIL, w1))"

definition SendMsgHeader :: "ArdpConnRecord \<Rightarrow> ArdpHeader \<Rightarrow> world \<Rightarrow> QStatus \<times> world" where
  "SendMsgHeader conn h w =
     (let h1 = (if rcvMsk_sz conn \<noteq> 0 then h\<lparr>h_flags := h_flags h OR ARDP_FLAG_EACK\<rparr> else h)
      in SendMsg h1 0 0 w)"

text \<open>
  \<open>SendMsgData\<close> on the send slot with index \<open>idx\<close>. With a nonzero ttl the clock is read;
  a slot that is not yet on the wire and whose ttl has elapsed is dropped before
  \<open>onTheWire\<close> is set and before the socket is touched.
\<close>

definition SendMsgData ::
  "ArdpConnRecord \<Rightarrow> nat \<Rightarrow> world \<Rightarrow> fault + (QStatus \<times> ArdpConnRecord \<times> world)" where
  "SendMsgData conn idx w =
     (if idx \<ge> length (SBUF_snd conn) then Inl OutOfBounds
      else
        let sndBuf = SBUF_snd conn ! idx;
            h0 = sb_hdr sndBuf;
            h = h0\<lparr>h_ack := RCV_CUR conn, h_window := ucast (RBUF_window conn),
                   h_flags := (if rcvMsk_sz conn = 0 then h_flags h0 AND NOT ARDP_FLAG_EACK
                               else h_flags h0 OR ARDP_FLAG_EACK)\<rparr>;
            sb1 = sndBuf\<lparr>sb_hdr := h\<rparr>;
            (now, w1) = (if sb_ttl sndBuf \<noteq> 0 then TimeNow w else (0, w));
            msElapsed = now - sb_tStart sndBuf
        in if sb_ttl sndBuf \<noteq> 0 \<and> \<not> sb_onTheWire sndBuf \<and> msElapsed \<ge> sb_ttl sndBuf
           then Inr (ER_ARDP_TTL_EXPIRED, conn\<lparr>SBUF_snd := (SBUF_snd conn)[idx := sb1]\<rparr>, w1)
           else
             let sb2 = sb1\<lparr>sb_onTheWire := True\<rparr>;
                 (status, w2) = SendMsg h (sb_data sndBuf) (sb_datalen sndBuf) w1
             in Inr (status, conn\<lparr>SBUF_snd := (SBUF_snd conn)[idx := sb2]\<rparr>, w2))"

text \<open>\<open>Send\<close>: a header-only segment. Its \<open>som\<close> and \<open>fcnt\<close> are not set by the code.\<close>

definition Send :: "ArdpConnRecord \<Rightarrow> u8 \<Rightarrow> u32 \<Rightarrow> u32 \<Rightarrow> u16 \<Rightarrow> world \<Rightarrow> QStatus \<times> world" where
  "Send conn flags seq ack win w =
     SendMsgHeader conn
       \<lparr>h_flags = flags, h_hlen = ucast (sndHdrLen conn div 2), h_src = local conn,
        h_dst = foreign conn, h_dlen = 0, h_seq = seq, h_ack = ack, h_window = win,
        h_som = 0, h_fcnt = 0\<rparr> w"

text \<open>\<open>ARDP_Disconnect\<close>; \<open>valid\<close> is the value of \<open>IsConnValid(handle, conn)\<close>.\<close>

definition ARDP_Disconnect ::
  "ArdpHandle \<Rightarrow> bool \<Rightarrow> ArdpConnRecord \<Rightarrow> world \<Rightarrow> QStatus \<times> ArdpConnRecord \<times> world" where
  "ARDP_Disconnect handle valid conn w =
     (if \<not> valid \<or> STATE conn = CLOSED \<or> STATE conn = CLOSE_WAIT
      then (ER_ARDP_INVALID_STATE, conn, w)
      else if STATE conn = OPEN then
        let (tid, c1, w1) = AddTimer conn w DISCONNECT_TIMER (Some H_Disconnect) CtxNull
                              (timewait (config handle)) ARDP_DISCONNECT_RETRY;
            c2 = c1\<lparr>STATE := CLOSE_WAIT\<rparr>;
            (status, w2) = Send c2 (ARDP_FLAG_RST OR ARDP_FLAG_VER) (SND_NXT c2) (RCV_CUR c2)
                             (ucast (RBUF_window c2)) w1
        in (status, c2, w2)
      else
        let c1 = conn\<lparr>STATE := CLOSED\<rparr>;
            (tid, c2, w1) = AddTimer c1 w DISCONNECT_TIMER (Some H_Disconnect) CtxNull 0
                              ARDP_DISCONNECT_RETRY
        in (ER_OK, c2, w1))"

text \<open>
  One iteration of the \<open>for\<close> loop of \<open>SendData\<close>, for fragment number \<open>i\<close>. \<open>timeout\<close>
  and \<open>status\<close> are the local variables that live across iterations; the first component
  of the result says whether the loop was left by \<open>break\<close>. \<open>dbg\<close> says whether assertions
  are compiled in.
\<close>

definition SendData_iter ::
  "bool \<Rightarrow> ArdpHandle \<Rightarrow> nat \<Rightarrow> u16 \<Rightarrow> u32 \<Rightarrow> u32 \<Rightarrow> nat \<Rightarrow> u32 \<Rightarrow> u32
     \<Rightarrow> ArdpConnRecord \<Rightarrow> world \<Rightarrow> fault + (bool \<times> u32 \<times> QStatus \<times> ArdpConnRecord \<times> world)" where
  "SendData_iter dbg handle i fcnt lastLen som segData ttl timeout conn w =
     (if SND_MAX conn = 0 then Inl DivideByZero
      else
        let index = unat (ucast (SND_NXT conn mod SND_MAX conn) :: u16);
            segLen = (if i = unat fcnt - 1 then ucast lastLen else SBUF_maxDlen conn) :: u16
        in if index \<ge> length (SBUF_snd conn) then Inl OutOfBounds
           else if dbg \<and> \<not> (SND_NXT conn - SND_UNA conn < SND_MAX conn) then Inl AssertFailed
           else
             let sb = SBUF_snd conn ! index;
                 h = (sb_hdr sb)
                       \<lparr>h_flags := (if 1 < fcnt
                                    then ARDP_FLAG_ACK OR ARDP_FLAG_VER OR ARDP_FLAG_FRAG
                                    else ARDP_FLAG_ACK OR ARDP_FLAG_VER),
                        h_som := som, h_fcnt := fcnt,
                        h_hlen := ucast (sndHdrLen conn div 2),
                        h_src := local conn, h_dst := foreign conn,
                        h_dlen := segLen, h_seq := SND_NXT conn\<rparr>;
                 (tStart, w1) = TimeNow w;
                 sb1 = sb\<lparr>sb_hdr := h, sb_ttl := ttl, sb_tStart := tStart, sb_data := segData,
                         sb_datalen := ucast segLen, sb_hdrlen := sndHdrLen conn\<rparr>;
                 c1 = conn\<lparr>SBUF_snd := (SBUF_snd conn)[index := sb1]\<rparr>
             in if dbg \<and> \<not> (ucast (SBUF_pending c1) < SND_MAX c1) then Inl AssertFailed
                else
                  (case SendMsgData c1 index w1 of
                     Inl f \<Rightarrow> Inl f
                   | Inr (st, c2, w2) \<Rightarrow>
                       let timeout1 = (if st = ER_WOULDBLOCK then ARDP_URGENT_RETRANSMIT_TIMEOUT
                                       else timeout);
                           status1 = (if st = ER_WOULDBLOCK then ER_OK else st)
                       in if status1 = ER_OK then
                            let (tid, c3, w3) = AddTimer c2 w2 RETRANSMIT_TIMER (Some H_Retransmit)
                                                  (CtxSnd index) timeout1 (ARDP_RETRANSMIT_RETRY + 1);
                                sb3 = (SBUF_snd c3 ! index)\<lparr>sb_timer := Some tid, sb_inUse := True\<rparr>;
                                c4 = c3\<lparr>SBUF_snd := (SBUF_snd c3)[index := sb3],
                                        SBUF_pending := SBUF_pending c3 + 1,
                                        SND_NXT := SND_NXT c3 + 1\<rparr>
                            in Inr (False, timeout1, status1, c4, w3)
                          else if status1 \<noteq> ER_ARDP_TTL_EXPIRED then
                            let (st2, c3, w3) = ARDP_Disconnect handle True c2 w2
                            in Inr (True, timeout1, status1, c3, w3)
                          else Inr (False, timeout1, status1, c2, w2)))"

text \<open>The loop itself: \<open>n\<close> more iterations, starting at fragment number \<open>i\<close>.\<close>

fun SendData_loop ::
  "nat \<Rightarrow> bool \<Rightarrow> ArdpHandle \<Rightarrow> nat \<Rightarrow> u16 \<Rightarrow> u32 \<Rightarrow> u32 \<Rightarrow> nat \<Rightarrow> u32 \<Rightarrow> u32 \<Rightarrow> QStatus
     \<Rightarrow> ArdpConnRecord \<Rightarrow> world \<Rightarrow> fault + (QStatus \<times> ArdpConnRecord \<times> world)" where
  "SendData_loop 0 dbg handle i fcnt lastLen som segData ttl timeout status conn w =
     Inr (status, conn, w)"
| "SendData_loop (Suc n) dbg handle i fcnt lastLen som segData ttl timeout status conn w =
     (case SendData_iter dbg handle i fcnt lastLen som segData ttl timeout conn w of
        Inl f \<Rightarrow> Inl f
      | Inr (brk, timeout1, status1, c1, w1) \<Rightarrow>
          if brk then Inr (status1, c1, w1)
          else SendData_loop n dbg handle (Suc i) fcnt lastLen som segData ttl timeout1 status1 c1 w1)"

text \<open>
  The fragment count of \<open>SendData\<close>,
  \<open>fcnt = (len + (conn->SBUF.maxDlen - 1)) / conn->SBUF.maxDlen\<close>: the sum and the
  quotient are 32-bit, the variable is a \<open>uint16_t\<close>.
\<close>

definition frag_count :: "u32 \<Rightarrow> u16 \<Rightarrow> u16" where
  "frag_count len maxDlen = ucast ((len + (ucast maxDlen - 1)) div ucast maxDlen)"

text \<open>
  \<open>SendData\<close>. \<open>lastLen\<close> is \<open>len % maxDlen\<close>; \<open>segData\<close> stays \<open>buf\<close> for every fragment,
  as in the source.
\<close>

definition SendData ::
  "bool \<Rightarrow> ArdpHandle \<Rightarrow> ArdpConnRecord \<Rightarrow> nat \<Rightarrow> u32 \<Rightarrow> u32 \<Rightarrow> world
     \<Rightarrow> fault + (QStatus \<times> ArdpConnRecord \<times> world)" where
  "SendData dbg handle conn buf len ttl w =
     (let som = SND_NXT conn in
      if SND_NXT conn - SND_UNA conn < SND_MAX conn then
        if len \<le> ucast (SBUF_maxDlen conn) then
          SendData_loop 1 dbg handle 0 1 len som buf ttl ARDP_RETRANSMIT_TIMEOUT ER_OK conn w
        else if SBUF_maxDlen conn = 0 then Inl DivideByZero
        else
          let fcnt = frag_count len (SBUF_maxDlen conn);
              lastLen = len mod ucast (SBUF_maxDlen conn)
          in if ucast fcnt > SND_MAX conn then Inr (ER_FAIL, conn, w)
             else if fcnt > window conn then Inr (ER_ARDP_BACKPRESSURE, conn, w)
             else SendData_loop (unat fcnt) dbg handle 0 fcnt lastLen som buf ttl
                    ARDP_RETRANSMIT_TIMEOUT ER_OK conn w
      else Inr (ER_ARDP_BACKPRESSURE, conn, w))"

text \<open>
  \<open>IsConnValid\<close> walks the connection list looking for the pointer. \<open>conn_at\<close> is the
  record behind a pointer, \<open>None\<close> when the pointer is not on the list.
\<close>

definition IsConnValid :: "ArdpHandle \<Rightarrow> nat \<Rightarrow> bool" where
  "IsConnValid handle conn = (conn \<in> set (map fst (conns handle)))"

definition conn_at :: "ArdpHandle \<Rightarrow> nat \<Rightarrow> ArdpConnRecord option" where
  "conn_at handle conn = (if IsConnValid handle conn then map_of (conns handle) conn else None)"

text \<open>Writing through the pointer: the record at address \<open>conn\<close> becomes \<open>c\<close>.\<close>

fun conn_store :: "nat \<Rightarrow> ArdpConnRecord \<Rightarrow> (nat \<times> ArdpConnRecord) list \<Rightarrow> (nat \<times> ArdpConnRecord) list" where
  "conn_store conn c [] = []"
| "conn_store conn c ((p, r) # rest) =
     (if p = conn then (p, c) # rest else (p, r) # conn_store conn c rest)"

definition conn_update :: "ArdpHandle \<Rightarrow> nat \<Rightarrow> ArdpConnRecord \<Rightarrow> ArdpHandle" where
  "conn_update handle conn c = handle\<lparr>conns := conn_store conn c (conns handle)\<rparr>"

text \<open>\<open>ARDP_Send\<close>: \<open>conn\<close> is the address of the connection record, \<open>buf\<close> the payload pointer.\<close>

definition ARDP_Send ::
  "bool \<Rightarrow> ArdpHandle \<Rightarrow> nat \<Rightarrow> nat \<Rightarrow> u32 \<Rightarrow> u32 \<Rightarrow> world
     \<Rightarrow> fault + (QStatus \<times> ArdpHandle \<times> world)" where
  "ARDP_Send dbg handle conn buf len ttl w =
     (case conn_at handle conn of
        None \<Rightarrow> Inr (ER_ARDP_INVALID_STATE, handle, w)
      | Some c \<Rightarrow>
          if STATE c \<noteq> OPEN then Inr (ER_ARDP_INVALID_STATE, handle, w)
          else if buf = 0 \<or> len = 0 then Inr (ER_INVALID_DATA, handle, w)
          else if window c = 0 \<or> SND_NXT c - SND_UNA c \<ge> ucast (window c)
          then Inr (ER_ARDP_BACKPRESSURE, handle, w)
          else (case SendData dbg handle c buf len ttl w of
                  Inl f \<Rightarrow> Inl f
                | Inr (st, c', w') \<Rightarrow> Inr (st, conn_update handle conn c', w')))"

section \<open>Acknowledged segments\<close>

text \<open>
  \<open>SendCb\<close> is called through the handle's pointer without a NULL check; the call is
  recorded in the trace.
\<close>

definition call_SendCb :: "ArdpHandle \<Rightarrow> nat \<Rightarrow> u32 \<Rightarrow> QStatus \<Rightarrow> world \<Rightarrow> fault + world" where
  "call_SendCb handle buf len status w =
     (if SendCb (cb handle) then Inr (w\<lparr>trace := trace w @ [EvSendCb buf len status]\<rparr>)
      else Inl NullCallback)"

text \<open>
  One iteration of the \<open>for\<close> loop of \<open>FlushAckedSegments\<close>, on slot \<open>i\<close>. The length
  passed for a fragmented message is \<open>maxDlen * (fcnt - 1) + dlen\<close> of the slot being
  flushed, taken modulo \<open>2^32\<close>.
\<close>

definition FlushAckedSegments_iter ::
  "ArdpHandle \<Rightarrow> u32 \<Rightarrow> nat \<Rightarrow> ArdpConnRecord \<Rightarrow> world \<Rightarrow> fault + (ArdpConnRecord \<times> world)" where
  "FlushAckedSegments_iter handle ack i conn w =
     (if i \<ge> length (SBUF_snd conn) then Inl OutOfBounds
      else
        let sb = SBUF_snd conn ! i;
            h = sb_hdr sb;
            seq = h_seq h
        in if SEQ32_LET seq ack \<and> sb_inUse sb then
             (case (case sb_timer sb of None \<Rightarrow> Inr conn | Some tid \<Rightarrow> DeleteTimer conn tid) of
                Inl f \<Rightarrow> Inl f
              | Inr c1 \<Rightarrow>
                  let sb1 = sb\<lparr>sb_timer := None, sb_inUse := False\<rparr>;
                      c2 = c1\<lparr>SBUF_snd := (SBUF_snd c1)[i := sb1],
                              SBUF_pending := SBUF_pending c1 - 1\<rparr>
                  in if h_flags h AND ARDP_FLAG_FRAG \<noteq> 0 then
                       let fcnt = h_fcnt h
                       in if h_seq h \<noteq> h_som h + ucast fcnt then Inr (c2, w)
                          else if SND_MAX c2 = 0 then Inl DivideByZero
                          else
                            let index = unat (ucast (h_som h mod SND_MAX c2) :: u16);
                                len = ucast (SBUF_maxDlen c2) * (ucast fcnt - 1) + ucast (h_dlen h)
                            in if index \<ge> length (SBUF_snd c2) then Inl OutOfBounds
                               else (case call_SendCb handle (sb_data (SBUF_snd c2 ! index)) len ER_OK w of
                                       Inl f \<Rightarrow> Inl f
                                     | Inr w1 \<Rightarrow> Inr (c2, w1))
                     else (case call_SendCb handle (sb_data sb1) (sb_datalen sb1) ER_OK w of
                             Inl f \<Rightarrow> Inl f
                           | Inr w1 \<Rightarrow> Inr (c2, w1)))
           else Inr (conn, w))"

fun FlushAckedSegments_loop ::
  "nat \<Rightarrow> ArdpHandle \<Rightarrow> u32 \<Rightarrow> nat \<Rightarrow> ArdpConnRecord \<Rightarrow> world \<Rightarrow> fault + (ArdpConnRecord \<times> world)" where
  "FlushAckedSegments_loop 0 handle ack i conn w = Inr (conn, w)"
| "FlushAckedSegments_loop (Suc n) handle ack i conn w =
     (case FlushAckedSegments_iter handle ack i conn w of
        Inl f \<Rightarrow> Inl f
      | Inr (c1, w1) \<Rightarrow> FlushAckedSegments_loop n handle ack (Suc i) c1 w1)"

text \<open>\<open>FlushAckedSegments\<close>: the loop runs over the slots \<open>0 .. SND.MAX - 1\<close>.\<close>

definition FlushAckedSegments ::
  "ArdpHandle \<Rightarrow> ArdpConnRecord \<Rightarrow> u32 \<Rightarrow> world \<Rightarrow> fault + (ArdpConnRecord \<times> world)" where
  "FlushAckedSegments handle conn ack w =
     FlushAckedSegments_loop (unat (SND_MAX conn)) handle ack 0 conn w"

text \<open>
  The cumulative-ACK step of \<open>ArdpMachine\<close> in state OPEN: an ACK inside
  \<open>[SND.UNA, SND.UNA + (SND.NXT - SND.UNA) + 1)\<close> flushes and moves \<open>SND.UNA\<close>.
\<close>

definition OPEN_process_ack ::
  "ArdpHandle \<Rightarrow> ArdpConnRecord \<Rightarrow> u32 \<Rightarrow> world \<Rightarrow> fault + (ArdpConnRecord \<times> world)" where
  "OPEN_process_ack handle conn ack w =
     (if IN_RANGE (SND_UNA conn) ((SND_NXT conn - SND_UNA conn) + 1) ack then
        (case FlushAckedSegments handle conn ack w of
           Inl f \<Rightarrow> Inl f
         | Inr (c1, w1) \<Rightarrow> Inr (c1\<lparr>SND_UNA := ack + 1\<rparr>, w1))
      else Inr (conn, w))"

section \<open>The retransmit timer\<close>

definition set_timer_retry :: "nat \<Rightarrow> u16 \<Rightarrow> ArdpTimer list \<Rightarrow> ArdpTimer list" where
  "set_timer_retry tid r ts = map (\<lambda>t. if t_id t = tid then t\<lparr>t_retry := r\<rparr> else t) ts"

definition set_timer_delta :: "nat \<Rightarrow> u32 \<Rightarrow> ArdpTimer list \<Rightarrow> ArdpTimer list" where
  "set_timer_delta tid d ts = map (\<lambda>t. if t_id t = tid then t\<lparr>t_delta := d\<rparr> else t) ts"

text \<open>
  One iteration of the loop that invalidates the fragments of an abandoned message.
  \<open>timer\<close> is the timer that fired. The slot at \<open>index\<close> loses \<open>inUse\<close>; \<open>pending\<close> is
  decremented before and after that; \<open>index\<close> then moves on modulo \<open>RBUF.MAX\<close>, and it is
  the slot at the new index whose timer pointer is tested and cleared, while the timer
  handed to \<open>DeleteTimer\<close> is the one that fired. The result carries the new index and
  the header last looked at.
\<close>

definition Retransmit_invalidate_iter ::
  "bool \<Rightarrow> nat \<Rightarrow> nat \<Rightarrow> ArdpConnRecord \<Rightarrow> fault + (nat \<times> ArdpHeader \<times> ArdpConnRecord)" where
  "Retransmit_invalidate_iter dbg timer index conn =
     (if index \<ge> length (SBUF_snd conn) then Inl OutOfBounds
      else
        let sb = SBUF_snd conn ! index;
            h = sb_hdr sb
        in if dbg \<and> h_flags h AND ARDP_FLAG_FRAG = 0 then Inl AssertFailed
           else
             (case (case sb_timer sb of
                      None \<Rightarrow> Inr conn
                    | Some tid \<Rightarrow>
                        (case find_timer (timers conn) tid of
                           None \<Rightarrow> Inl DanglingTimer
                         | Some _ \<Rightarrow> Inr (conn\<lparr>timers := set_timer_retry tid 0 (timers conn)\<rparr>))) of
                Inl f \<Rightarrow> Inl f
              | Inr c1 \<Rightarrow>
                  let c2 = c1\<lparr>SBUF_pending := SBUF_pending c1 - 1\<rparr>;
                      c3 = c2\<lparr>SBUF_snd := (SBUF_snd c2)[index := sb\<lparr>sb_inUse := False\<rparr>]\<rparr>;
                      c4 = c3\<lparr>SBUF_pending := SBUF_pending c3 - 1\<rparr>
                  in if RBUF_MAX c4 = 0 then Inl DivideByZero
                     else
                       let index1 = unat (ucast ((of_nat index + 1) mod RBUF_MAX c4 :: u32) :: u16)
                       in if index1 \<ge> length (SBUF_snd c4) then Inl OutOfBounds
                          else if sb_timer (SBUF_snd c4 ! index1) \<noteq> None then
                            (case DeleteTimer c4 timer of
                               Inl f \<Rightarrow> Inl f
                             | Inr c5 \<Rightarrow>
                                 Inr (index1, h,
                                      c5\<lparr>SBUF_snd := (SBUF_snd c5)
                                            [index1 := (SBUF_snd c5 ! index1)\<lparr>sb_timer := None\<rparr>]\<rparr>))
                          else Inr (index1, h, c4)))"

fun Retransmit_invalidate_loop ::
  "nat \<Rightarrow> bool \<Rightarrow> nat \<Rightarrow> nat \<Rightarrow> ArdpHeader \<Rightarrow> ArdpConnRecord \<Rightarrow> fault + (ArdpHeader \<times> ArdpConnRecord)" where
  "Retransmit_invalidate_loop 0 dbg timer index h conn = Inr (h, conn)"
| "Retransmit_invalidate_loop (Suc n) dbg timer index h conn =
     (case Retransmit_invalidate_iter dbg timer index conn of
        Inl f \<Rightarrow> Inl f
      | Inr (index1, h1, c1) \<Rightarrow> Retransmit_invalidate_loop n dbg timer index1 h1 c1)"

text \<open>
  \<open>RetransmitTimerHandler\<close>; \<open>context\<close> is the index of the send slot the timer belongs
  to. With more than one retry left the slot is sent again. Otherwise the message is
  abandoned and \<open>SendCb\<close> reports \<open>ER_FAIL\<close>; the last argument read for that call is
  \<open>timer->conn\<close>, so the timer must still be allocated.
\<close>

definition RetransmitTimerHandler ::
  "bool \<Rightarrow> ArdpHandle \<Rightarrow> ArdpConnRecord \<Rightarrow> nat \<Rightarrow> world \<Rightarrow> fault + (ArdpConnRecord \<times> world)" where
  "RetransmitTimerHandler dbg handle conn context w =
     (if context \<ge> length (SBUF_snd conn) then Inl OutOfBounds
      else
        let snd = SBUF_snd conn ! context
        in if dbg \<and> \<not> sb_inUse snd then Inl AssertFailed
           else
             (case sb_timer snd of
                None \<Rightarrow> Inl DanglingTimer
              | Some timer \<Rightarrow>
                  (case find_timer (timers conn) timer of
                     None \<Rightarrow> Inl DanglingTimer
                   | Some t \<Rightarrow>
                       if 1 < t_retry t then
                         (case SendMsgData conn context w of
                            Inl f \<Rightarrow> Inl f
                          | Inr (status, c1, w1) \<Rightarrow>
                              let ts1 = (if status = ER_WOULDBLOCK
                                         then set_timer_delta timer ARDP_URGENT_RETRANSMIT_TIMEOUT (timers c1)
                                         else if status = ER_OK
                                         then set_timer_delta timer ARDP_RETRANSMIT_TIMEOUT (timers c1)
                                         else timers c1);
                                  ts2 = set_timer_retry timer (t_retry t - 1) ts1
                              in Inr (c1\<lparr>timers := ts2\<rparr>, w1))
                       else
                         let h = sb_hdr snd;
                             c1 = conn\<lparr>timers := set_timer_retry timer 0 (timers conn),
                                      SBUF_snd := (SBUF_snd conn)[context := snd\<lparr>sb_timer := None\<rparr>]\<rparr>
                         in (case (if h_flags h AND ARDP_FLAG_FRAG \<noteq> 0 then
                                     let fcnt = h_fcnt h;
                                         som = h_som h
                                     in if RBUF_MAX c1 = 0 then Inl DivideByZero
                                        else
                                          let index = unat (ucast (som mod RBUF_MAX c1) :: u16)
                                          in if index \<ge> length (SBUF_snd c1) then Inl OutOfBounds
                                             else
                                               let buf = sb_data (SBUF_snd c1 ! index)
                                               in (case Retransmit_invalidate_loop (unat fcnt) dbg timer
                                                          index h c1 of
                                                     Inl f \<Rightarrow> Inl f
                                                   | Inr (h1, c2) \<Rightarrow>
                                                       Inr (buf,
                                                            ucast (SBUF_maxDlen c2) * (ucast fcnt - 1)
                                                              + ucast (h_dlen h1),
                                                            c2))
                                   else Inr (sb_data snd, sb_datalen snd, c1)) of
                               Inl f \<Rightarrow> Inl f
                             | Inr (buf, len, c2) \<Rightarrow>
                                 (case find_timer (timers c2) timer of
                                    None \<Rightarrow> Inl DanglingTimer
                                  | Some _ \<Rightarrow>
                                      (case call_SendCb handle buf len ER_FAIL w of
                                         Inl f \<Rightarrow> Inl f
                                       | Inr w1 \<Rightarrow> Inr (c2, w1)))))))"

section \<open>Receiving\<close>

text \<open>The fields of \<open>ArdpSeg\<close> that the receive path reads.\<close>

record ArdpSeg =
  seg_SEQ :: u32
  seg_ACK :: u32
  seg_SOM :: u32
  seg_FCNT :: u16
  seg_DLEN :: u16
  seg_WINDOW :: u16
  seg_FLG :: u8

text \<open>The \<open>next\<close> link of receive slot \<open>i\<close>.\<close>

definition rcv_next :: "ArdpConnRecord \<Rightarrow> nat \<Rightarrow> nat" where
  "rcv_next conn i = (i + 1) mod unat (RCV_MAX conn)"

text \<open>
  \<open>RecvCb\<close> is called through the handle's pointer without a NULL check. The user's
  answer comes from the world; the callback is taken not to call back into the engine.
\<close>

definition call_RecvCb :: "ArdpHandle \<Rightarrow> nat \<Rightarrow> world \<Rightarrow> fault + (bool \<times> world)" where
  "call_RecvCb handle slot w =
     (if RecvCb (cb handle) then
        let a = recvAnswer w (nrecv w)
        in Inr (a, w\<lparr>nrecv := Suc (nrecv w), trace := trace w @ [EvRecvCb slot a]\<rparr>)
      else Inl NullCallback)"

text \<open>
  The loop of \<open>UpdateRcvMsk\<close> over the mask words \<open>i = skip + 1 .. sz - 1\<close>; \<open>n\<close> is the
  number of iterations left. The length of \<open>rcvMsk_mask\<close> is the size of the array.
\<close>

fun UpdateRcvMsk_loop :: "nat \<Rightarrow> nat \<Rightarrow> nat \<Rightarrow> nat \<Rightarrow> nat \<Rightarrow> u32 list \<Rightarrow> u16 \<Rightarrow> fault + (u32 list \<times> u16)" where
  "UpdateRcvMsk_loop 0 i skip lshift rshift msk newSz = Inr (msk, newSz)"
| "UpdateRcvMsk_loop (Suc n) i skip lshift rshift msk newSz =
     (if i \<ge> length msk then Inl OutOfBounds
      else if msk ! i = 0 then UpdateRcvMsk_loop n (Suc i) skip lshift rshift msk newSz
      else if lshift \<ge> 32 then Inl ShiftTooFar
      else
        let saveBits = drop_bit rshift (msk ! i);
            m1 = msk[i := push_bit lshift (msk ! i)];
            m2 = m1[i - 1 := (m1 ! (i - 1)) OR saveBits]
        in UpdateRcvMsk_loop n (Suc i) skip lshift rshift m2
             (if m2 ! i > 0 then of_nat (i - skip) else newSz))"

definition UpdateRcvMsk :: "ArdpConnRecord \<Rightarrow> u32 \<Rightarrow> fault + ArdpConnRecord" where
  "UpdateRcvMsk conn delta =
     (let skip = unat (delta div 32);
          lshift = 32 - unat (delta mod 32);
          rshift = 32 - lshift;
          msk = rcvMsk_mask conn
      in if skip \<ge> length msk \<or> msk = [] then Inl OutOfBounds
         else if lshift \<ge> 32 then Inl ShiftTooFar
         else
           let m1 = msk[0 := push_bit lshift (msk ! skip)];
               newSz = (if m1 ! 0 > 0 then 1 else 0)
           in (case UpdateRcvMsk_loop (unat (rcvMsk_sz conn) - (skip + 1)) (skip + 1) skip lshift
                      rshift m1 newSz of
                 Inl f \<Rightarrow> Inl f
               | Inr (m2, sz) \<Rightarrow> Inr (conn\<lparr>rcvMsk_mask := m2, rcvMsk_sz := sz\<rparr>)))"

definition AddRcvMsk :: "bool \<Rightarrow> ArdpConnRecord \<Rightarrow> u32 \<Rightarrow> fault + ArdpConnRecord" where
  "AddRcvMsk dbg conn delta =
     (let bin32 = (delta - 1) div 32;
          offset = 32 - (delta - push_bit 5 bin32)
      in if dbg \<and> \<not> (bin32 < ucast (rcvMsk_fixedSz conn)) then Inl AssertFailed
         else if unat bin32 \<ge> length (rcvMsk_mask conn) then Inl OutOfBounds
         else if offset \<ge> 32 then Inl ShiftTooFar
         else
           let m = (rcvMsk_mask conn)[unat bin32 := (rcvMsk_mask conn ! unat bin32)
                                                    OR push_bit (unat offset) 1]
           in Inr (conn\<lparr>rcvMsk_mask := m,
                         rcvMsk_sz := (if ucast (rcvMsk_sz conn) < bin32 + 1 then ucast (bin32 + 1)
                                       else rcvMsk_sz conn)\<rparr>))"

text \<open>
  The first inner loop of the fragment branch of \<open>AddRcvBuffer\<close>: it only checks, and
  returns where \<open>fragment\<close> points after \<open>n\<close> steps.
\<close>

fun frag_check :: "nat \<Rightarrow> bool \<Rightarrow> ArdpSeg \<Rightarrow> nat \<Rightarrow> ArdpConnRecord \<Rightarrow> fault + nat" where
  "frag_check 0 dbg seg fragment conn = Inr fragment"
| "frag_check (Suc n) dbg seg fragment conn =
     (if fragment \<ge> length (RBUF_rcv conn) then Inl OutOfBounds
      else
        let f = RBUF_rcv conn ! fragment
        in if dbg \<and> \<not> (rb_inUse f \<and> \<not> rb_isDelivered f \<and> rb_som f = seg_SOM seg
                          \<and> rb_fcnt f = seg_FCNT seg)
           then Inl AssertFailed
           else frag_check n dbg seg (rcv_next conn fragment) conn)"

text \<open>The loops that mark \<open>n\<close> slots from \<open>fragment\<close> on as delivered.\<close>

fun frag_mark :: "nat \<Rightarrow> nat \<Rightarrow> ArdpConnRecord \<Rightarrow> fault + ArdpConnRecord" where
  "frag_mark 0 fragment conn = Inr conn"
| "frag_mark (Suc n) fragment conn =
     (if fragment \<ge> length (RBUF_rcv conn) then Inl OutOfBounds
      else frag_mark n (rcv_next conn fragment)
             (conn\<lparr>RBUF_rcv := (RBUF_rcv conn)
                      [fragment := (RBUF_rcv conn ! fragment)\<lparr>rb_isDelivered := True\<rparr>]\<rparr>))"

text \<open>
  A refused delivery: a RECV timer for the slot \<open>ctx\<close> is added and its address stored
  in \<open>current->timer\<close>.
\<close>

definition defer_delivery :: "ArdpConnRecord \<Rightarrow> world \<Rightarrow> nat \<Rightarrow> nat \<Rightarrow> ArdpConnRecord \<times> world" where
  "defer_delivery conn w current ctx =
     (let (tid, c1, w1) = AddTimer conn w RECV_TIMER (Some H_Recv) (CtxRcv ctx) ARDP_RECV_TIMEOUT
                            ARDP_RECV_RETRY
      in (c1\<lparr>RBUF_rcv := (RBUF_rcv c1)[current := (RBUF_rcv c1 ! current)\<lparr>rb_timer := Some tid\<rparr>]\<rparr>,
          w1))"

text \<open>
  The body of the \<open>do\<close> loop of \<open>AddRcvBuffer\<close> up to \<open>current = current->next\<close>, for the
  slot \<open>current\<close>. After a successful callback for a fragmented message the marking loop
  goes on from where the checking loop left \<open>fragment\<close>.
\<close>

definition AddRcvBuffer_iter ::
  "bool \<Rightarrow> ArdpHandle \<Rightarrow> ArdpSeg \<Rightarrow> nat \<Rightarrow> bool \<Rightarrow> ArdpConnRecord \<Rightarrow> world
     \<Rightarrow> fault + (bool \<times> ArdpConnRecord \<times> world)" where
  "AddRcvBuffer_iter dbg handle seg current deliver conn w =
     (if current \<ge> length (RBUF_rcv conn) then Inl OutOfBounds
      else
        let cur = RBUF_rcv conn ! current;
            c1 = conn\<lparr>RCV_CUR := rb_seq cur\<rparr>
        in if 1 < rb_fcnt cur then
             if rb_seq cur = rb_som cur + (ucast (rb_fcnt cur) - 1) then
               if RCV_MAX c1 = 0 then Inl DivideByZero
               else
                 let startFrag = unat (ucast (seg_SOM seg mod RCV_MAX c1) :: u16)
                 in (case frag_check (unat (rb_fcnt cur)) dbg seg startFrag c1 of
                       Inl f \<Rightarrow> Inl f
                     | Inr fragment \<Rightarrow>
                         (case call_RecvCb handle startFrag w of
                            Inl f \<Rightarrow> Inl f
                          | Inr (accepted, w1) \<Rightarrow>
                              if \<not> accepted then
                                let (c2, w2) = defer_delivery c1 w1 current startFrag
                                in Inr (False, c2, w2)
                              else
                                (case frag_mark (unat (rb_fcnt cur)) fragment c1 of
                                   Inl f \<Rightarrow> Inl f
                                 | Inr c2 \<Rightarrow> Inr (True, c2, w1))))
             else Inr (deliver, c1, w)
           else if deliver then
             (case call_RecvCb handle current w of
                Inl f \<Rightarrow> Inl f
              | Inr (accepted, w1) \<Rightarrow>
                  if \<not> accepted then
                    let (c2, w2) = defer_delivery c1 w1 current current
                    in Inr (False, c2, w2)
                  else Inr (deliver,
                            c1\<lparr>RBUF_rcv := (RBUF_rcv c1)[current := cur\<lparr>rb_isDelivered := True\<rparr>]\<rparr>,
                            w1))
           else Inr (deliver, c1, w))"

text \<open>
  The \<open>do\<close> loop of \<open>AddRcvBuffer\<close> goes on while the next slot holds the next sequence
  number. It ends within \<open>RCV.MAX\<close> rounds: the body leaves the sequence numbers of the
  slots alone, and a slot met again after \<open>RCV.MAX\<close> steps cannot hold both \<open>s\<close> and
  \<open>s + RCV.MAX\<close>. \<open>walk_stop k\<close> says that the loop condition fails \<open>k\<close> slots ahead;
  \<open>walk_measure\<close> is the first such \<open>k\<close>.
\<close>

definition walk_stop :: "ArdpSeg \<Rightarrow> ArdpConnRecord \<Rightarrow> nat \<Rightarrow> u32 \<Rightarrow> nat \<Rightarrow> bool" where
  "walk_stop seg c cur delta k =
     (map rb_seq (RBUF_rcv c) ! ((cur + 1 + k) mod unat (RCV_MAX c))
        \<noteq> seg_SEQ seg + delta + 1 + of_nat k)"

definition walk_measure :: "ArdpSeg \<Rightarrow> ArdpConnRecord \<Rightarrow> nat \<Rightarrow> u32 \<Rightarrow> nat" where
  "walk_measure seg c cur delta = (LEAST k. walk_stop seg c cur delta k)"

lemma map_update_same: "(map f xs)[i := f (xs ! i)] = map f xs"
  by (metis list_update_id map_update)

lemma frag_mark_seqs:
  "frag_mark n fragment conn = Inr c' \<Longrightarrow>
     map rb_seq (RBUF_rcv c') = map rb_seq (RBUF_rcv conn) \<and> RCV_MAX c' = RCV_MAX conn"
proof (induction n arbitrary: fragment conn)
  case 0
  then show ?case by simp
next
  case (Suc n)
  from Suc.prems have inb: "fragment < length (RBUF_rcv conn)"
    by (simp split: if_splits)
  let ?c = "conn\<lparr>RBUF_rcv := (RBUF_rcv conn)
                      [fragment := (RBUF_rcv conn ! fragment)\<lparr>rb_isDelivered := True\<rparr>]\<rparr>"
  from Suc.prems inb have "frag_mark n (rcv_next conn fragment) ?c = Inr c'"
    by simp
  from Suc.IH [OF this] show ?case
    by (simp add: map_update map_update_same)
qed

lemma defer_delivery_seqs:
  "defer_delivery conn w current ctx = (c', w') \<Longrightarrow>
     map rb_seq (RBUF_rcv c') = map rb_seq (RBUF_rcv conn) \<and> RCV_MAX c' = RCV_MAX conn"
  by (auto simp: defer_delivery_def AddTimer_def TimeNow_def Let_def map_update map_update_same
           split: prod.splits)

lemma walk_stop_exists:
  assumes "RCV_MAX c \<noteq> 0"
  shows "\<exists>k. walk_stop seg c cur delta k"
proof (rule ccontr)
  assume "\<not> ?thesis"
  then have a: "\<not> walk_stop seg c cur delta 0" and b: "\<not> walk_stop seg c cur delta (unat (RCV_MAX c))"
    by blast+
  have m: "(cur + 1 + unat (RCV_MAX c)) mod unat (RCV_MAX c) = (cur + 1 + 0) mod unat (RCV_MAX c)"
    by (simp only: add_0_right mod_add_self2)
  from a have a': "map rb_seq (RBUF_rcv c) ! ((cur + 1 + 0) mod unat (RCV_MAX c))
                    = seg_SEQ seg + delta + 1 + of_nat 0"
    unfolding walk_stop_def by blast
  from b have b': "map rb_seq (RBUF_rcv c) ! ((cur + 1 + unat (RCV_MAX c)) mod unat (RCV_MAX c))
                    = seg_SEQ seg + delta + 1 + of_nat (unat (RCV_MAX c))"
    unfolding walk_stop_def by blast
  from a' b' m have "seg_SEQ seg + delta + 1 + of_nat (unat (RCV_MAX c)) = seg_SEQ seg + delta + 1 + of_nat 0"
    by simp
  then have "RCV_MAX c = 0" by simp
  with assms show False by simp
qed

lemma walk_stop_Suc:
  "walk_stop seg c cur delta (Suc k) = walk_stop seg c (rcv_next c cur) (delta + 1) k"
proof -
  have i: "((cur + 1) mod unat (RCV_MAX c) + 1 + k) mod unat (RCV_MAX c)
             = (cur + 1 + Suc k) mod unat (RCV_MAX c)"
    by (metis add.assoc mod_add_left_eq plus_1_eq_Suc)
  have v: "seg_SEQ seg + (delta + 1) + 1 + of_nat k = seg_SEQ seg + delta + 1 + of_nat (Suc k)"
    by simp
  show ?thesis
    unfolding walk_stop_def rcv_next_def i v ..
qed

lemma walk_measure_step:
  assumes "RCV_MAX c \<noteq> 0" and "\<not> walk_stop seg c cur delta 0"
  shows "walk_measure seg c (rcv_next c cur) (delta + 1) < walk_measure seg c cur delta"
proof -
  obtain k where k: "walk_stop seg c cur delta k"
    using walk_stop_exists [OF assms(1)] by blast
  have "(LEAST k. walk_stop seg c cur delta k) = Suc (LEAST m. walk_stop seg c cur delta (Suc m))"
    using k assms(2) by (rule Least_Suc)
  then show ?thesis by (simp add: walk_measure_def walk_stop_Suc)
qed

lemma walk_measure_cong:
  "map rb_seq (RBUF_rcv c') = map rb_seq (RBUF_rcv c) \<Longrightarrow> RCV_MAX c' = RCV_MAX c \<Longrightarrow>
     walk_measure seg c' cur delta = walk_measure seg c cur delta"
  by (simp add: walk_measure_def walk_stop_def)

lemma AddRcvBuffer_iter_seqs:
  assumes "AddRcvBuffer_iter dbg handle seg current deliver conn w = Inr (d, c', w')"
  shows "map rb_seq (RBUF_rcv c') = map rb_seq (RBUF_rcv conn) \<and> RCV_MAX c' = RCV_MAX conn"
proof -
  from assms have inb: "current < length (RBUF_rcv conn)"
    by (simp add: AddRcvBuffer_iter_def split: if_splits)
  let ?c1 = "conn\<lparr>RCV_CUR := rb_seq (RBUF_rcv conn ! current)\<rparr>"
  have c1: "map rb_seq (RBUF_rcv ?c1) = map rb_seq (RBUF_rcv conn)" "RCV_MAX ?c1 = RCV_MAX conn"
    by simp_all
  from assms inb show ?thesis
    unfolding AddRcvBuffer_iter_def Let_def
    apply (simp split: if_splits sum.splits prod.splits)
    apply (auto dest!: frag_mark_seqs defer_delivery_seqs simp: map_update map_update_same)
    done
qed

text \<open>
  The \<open>do\<close> loop: the body for \<open>current\<close>, then \<open>current = current->next\<close> and \<open>delta++\<close>,
  and again while \<open>current->seq == seg->SEQ + delta\<close>. The result carries the final
  \<open>delta\<close>.
\<close>

function AddRcvBuffer_walk ::
  "bool \<Rightarrow> ArdpHandle \<Rightarrow> ArdpSeg \<Rightarrow> nat \<Rightarrow> u32 \<Rightarrow> bool \<Rightarrow> ArdpConnRecord \<Rightarrow> world
     \<Rightarrow> fault + (u32 \<times> ArdpConnRecord \<times> world)" where
  "AddRcvBuffer_walk dbg handle seg current delta deliver conn w =
     (case AddRcvBuffer_iter dbg handle seg current deliver conn w of
        Inl f \<Rightarrow> Inl f
      | Inr (deliver1, c1, w1) \<Rightarrow>
          if RCV_MAX c1 = 0 then Inl DivideByZero
          else if rcv_next c1 current \<ge> length (RBUF_rcv c1) then Inl OutOfBounds
          else if rb_seq (RBUF_rcv c1 ! rcv_next c1 current) = seg_SEQ seg + (delta + 1)
          then AddRcvBuffer_walk dbg handle seg (rcv_next c1 current) (delta + 1) deliver1 c1 w1
          else Inr (delta + 1, c1, w1))"
  by pat_completeness (simp only: prod.inject)

termination
proof (relation "measure (\<lambda>(dbg, handle, seg, cur, delta, deliver, c, w). walk_measure seg c cur delta)")
  show "wf (measure (\<lambda>(dbg, handle, seg, cur, delta, deliver, c, w). walk_measure seg c cur delta))"
    by (rule wf_measure)
next
  fix dbg handle seg current delta deliver conn w x2 deliver1 y c1 w1
  assume it: "AddRcvBuffer_iter dbg handle seg current deliver conn w = Inr x2"
    and x2: "(deliver1, y) = x2" and y: "(c1, w1) = y"
    and nz: "RCV_MAX c1 \<noteq> 0"
    and inb: "\<not> length (RBUF_rcv c1) \<le> rcv_next c1 current"
    and eq: "rb_seq (RBUF_rcv c1 ! rcv_next c1 current) = seg_SEQ seg + (delta + 1)"
  from it x2 [symmetric] y [symmetric]
  have it': "AddRcvBuffer_iter dbg handle seg current deliver conn w = Inr (deliver1, c1, w1)"
    by (simp only:)
  note pres = AddRcvBuffer_iter_seqs [OF it']
  from inb have inb': "rcv_next c1 current < length (RBUF_rcv c1)"
    by (simp only: not_le)
  have e1: "map rb_seq (RBUF_rcv c1) ! rcv_next c1 current = rb_seq (RBUF_rcv c1 ! rcv_next c1 current)"
    by (rule nth_map [OF inb'])
  have i0: "(current + 1 + 0) mod unat (RCV_MAX c1) = rcv_next c1 current"
    by (simp add: rcv_next_def)
  have z: "seg_SEQ seg + delta + 1 + of_nat 0 = seg_SEQ seg + (delta + 1)"
    by simp
  have "\<not> walk_stop seg c1 current delta 0"
    unfolding walk_stop_def i0 z e1 using eq by blast
  from walk_measure_step [OF nz this]
  have "walk_measure seg c1 (rcv_next c1 current) (delta + 1) < walk_measure seg c1 current delta" .
  moreover have "walk_measure seg c1 current delta = walk_measure seg conn current delta"
    using pres by (blast intro: walk_measure_cong)
  ultimately show "((dbg, handle, seg, rcv_next c1 current, delta + 1, deliver1, c1, w1),
                    dbg, handle, seg, current, delta, deliver, conn, w)
                   \<in> measure (\<lambda>(dbg, handle, seg, cur, delta, deliver, c, w). walk_measure seg c cur delta)"
    by (simp only: in_measure case_prod_conv)
qed

declare AddRcvBuffer_walk.simps [simp del]

text \<open>
  \<open>AddRcvBuffer\<close>; \<open>len\<close> is the length of the datagram, whose payload is not modelled.
  \<open>previous\<close> is \<open>(index - 1) % RCV.MAX\<close> computed in 32 bits.
\<close>

definition AddRcvBuffer_store :: "ArdpConnRecord \<Rightarrow> ArdpSeg \<Rightarrow> nat \<Rightarrow> ArdpConnRecord" where
  "AddRcvBuffer_store conn seg index =
     conn\<lparr>RBUF_last := (if SEQ32_LT (RBUF_last conn) (seg_SEQ seg) then seg_SEQ seg
                        else RBUF_last conn),
          RBUF_rcv := (RBUF_rcv conn)
            [index := (RBUF_rcv conn ! index)
               \<lparr>rb_seq := seg_SEQ seg, rb_datalen := seg_DLEN seg, rb_inUse := True,
                rb_fcnt := seg_FCNT seg, rb_som := seg_SOM seg\<rparr>]\<rparr>"

definition AddRcvBuffer_deliver ::
  "bool \<Rightarrow> ArdpHandle \<Rightarrow> ArdpSeg \<Rightarrow> nat \<Rightarrow> nat \<Rightarrow> bool \<Rightarrow> ArdpConnRecord \<Rightarrow> world
     \<Rightarrow> fault + (ArdpConnRecord \<times> world)" where
  "AddRcvBuffer_deliver dbg handle seg index previous ordered c1 w =
     (if ordered then
        if previous \<ge> length (RBUF_rcv c1) then Inl OutOfBounds
        else
          (case AddRcvBuffer_walk dbg handle seg index 0
                  (rb_isDelivered (RBUF_rcv c1 ! previous)) c1 w of
             Inl f \<Rightarrow> Inl f
           | Inr (delta, c2, w2) \<Rightarrow>
               if 1 < delta then
                 (case UpdateRcvMsk c2 (delta + 1) of
                    Inl f \<Rightarrow> Inl f
                  | Inr c3 \<Rightarrow> Inr (c3, w2))
               else Inr (c2, w2))
      else
        (case AddRcvMsk dbg c1 (seg_SEQ seg - (RCV_CUR c1 + 1)) of
           Inl f \<Rightarrow> Inl f
         | Inr c2 \<Rightarrow> Inr (c2, w)))"

definition AddRcvBuffer ::
  "bool \<Rightarrow> ArdpHandle \<Rightarrow> ArdpConnRecord \<Rightarrow> ArdpSeg \<Rightarrow> u16 \<Rightarrow> bool \<Rightarrow> world
     \<Rightarrow> fault + (QStatus \<times> ArdpConnRecord \<times> world)" where
  "AddRcvBuffer dbg handle conn seg len ordered w =
     (if RCV_MAX conn = 0 then Inl DivideByZero
      else
        let index = unat (ucast (seg_SEQ seg mod RCV_MAX conn) :: u16);
            previous = unat ((of_nat index - 1 :: u32) mod RCV_MAX conn)
        in if index \<ge> length (RBUF_rcv conn) then Inl OutOfBounds
           else if dbg \<and> uint (rcvHdrLen conn) \<noteq> uint len - uint (seg_DLEN seg)
           then Inl AssertFailed
           else if RBUF_window conn = 0 \<and> \<not> SEQ32_LT (seg_SEQ seg) (RBUF_last conn)
           then (if dbg then Inl AssertFailed else Inr (ER_FAIL, conn, w))
           else if RBUF_MAX conn < ucast (seg_DLEN seg) then Inr (ER_FAIL, conn, w)
           else if dbg \<and> rb_inUse (RBUF_rcv conn ! index) then Inl AssertFailed
           else if dbg \<and> SEQ32_LT (RBUF_last conn) (seg_SEQ seg)
                   \<and> \<not> (seg_SEQ seg - RBUF_last conn < RCV_MAX conn)
           then Inl AssertFailed
           else
             (case AddRcvBuffer_deliver dbg handle seg index previous ordered
                     (AddRcvBuffer_store conn seg index) w of
                Inl f \<Rightarrow> Inl f
              | Inr (c4, w4) \<Rightarrow>
                  Inr (ER_OK,
                       c4\<lparr>RBUF_window := RCV_MAX c4 - ((RBUF_last c4 - RBUF_first c4) + 1)\<rparr>,
                       w4)))"

section \<open>Releasing receive buffers\<close>

text \<open>
  The release loop of \<open>UpdateRcvBuffers\<close>: \<open>n\<close> slots from \<open>consumed\<close> on lose \<open>inUse\<close> and
  \<open>isDelivered\<close>, and \<open>RBUF.first\<close> advances by one for each.
\<close>

fun UpdateRcvBuffers_loop :: "nat \<Rightarrow> bool \<Rightarrow> nat \<Rightarrow> ArdpConnRecord \<Rightarrow> fault + ArdpConnRecord" where
  "UpdateRcvBuffers_loop 0 dbg consumed conn = Inr conn"
| "UpdateRcvBuffers_loop (Suc n) dbg consumed conn =
     (if consumed \<ge> length (RBUF_rcv conn) then Inl OutOfBounds
      else if dbg \<and> \<not> (rb_inUse (RBUF_rcv conn ! consumed) \<and> rb_isDelivered (RBUF_rcv conn ! consumed))
      then Inl AssertFailed
      else UpdateRcvBuffers_loop n dbg (rcv_next conn consumed)
             (conn\<lparr>RBUF_rcv := (RBUF_rcv conn)
                      [consumed := (RBUF_rcv conn ! consumed)\<lparr>rb_inUse := False,
                                                                 rb_isDelivered := False\<rparr>],
                    RBUF_first := RBUF_first conn + 1\<rparr>))"

text \<open>
  \<open>UpdateRcvBuffers\<close>; \<open>consumed\<close> is the index of the slot the user hands back. The
  assertion before the loop is \<open>assert(consumed->fcnt < 1)\<close>.
\<close>

definition UpdateRcvBuffers ::
  "bool \<Rightarrow> ArdpConnRecord \<Rightarrow> nat \<Rightarrow> fault + (QStatus \<times> ArdpConnRecord)" where
  "UpdateRcvBuffers dbg conn consumed =
     (if consumed \<ge> length (RBUF_rcv conn) then Inl OutOfBounds
      else
        let buf = RBUF_rcv conn ! consumed;
            count = unat (rb_fcnt buf)
        in if dbg \<and> RBUF_first conn \<noteq> rb_seq buf then Inl AssertFailed
           else if RCV_MAX conn = 0 then Inl DivideByZero
           else
             let index = unat (ucast (rb_seq buf mod RCV_MAX conn) :: u16)
             in if index \<noteq> consumed then (if dbg then Inl AssertFailed else Inr (ER_FAIL, conn))
                else if dbg \<and> \<not> (rb_fcnt buf < 1) then Inl AssertFailed
                else
                  (case UpdateRcvBuffers_loop count dbg consumed conn of
                     Inl f \<Rightarrow> Inl f
                   | Inr c1 \<Rightarrow>
                       if SEQ32_LT (RBUF_last c1) (RBUF_first c1)
                       then Inr (ER_OK, c1\<lparr>RBUF_window := RCV_MAX c1, RBUF_last := RBUF_first c1\<rparr>)
                       else Inr (ER_OK, c1\<lparr>RBUF_window := RCV_MAX c1
                                               - ((RBUF_last c1 - RBUF_first c1) + 1)\<rparr>)))"

definition ARDP_RecvReady ::
  "bool \<Rightarrow> ArdpHandle \<Rightarrow> nat \<Rightarrow> nat \<Rightarrow> fault + (QStatus \<times> ArdpHandle)" where
  "ARDP_RecvReady dbg handle conn rcv =
     (case conn_at handle conn of
        None \<Rightarrow> Inr (ER_ARDP_INVALID_STATE, handle)
      | Some c \<Rightarrow>
          (case UpdateRcvBuffers dbg c rcv of
             Inl f \<Rightarrow> Inl f
           | Inr (st, c') \<Rightarrow> Inr (st, conn_update handle conn c')))"

section \<open>Timer handlers and the timer pass\<close>


















section \<open>The receive loop\<close>



















section \<open>Concrete connections\<close>

text \<open>
  An OPEN connection as the handshake leaves it: four send slots and four receive slots,
  all zeroed by \<open>InitSBUF\<close> and \<open>InitRcv\<close>, a 100-byte payload limit, no timers yet.
\<close>

definition hdr0 :: ArdpHeader where
  "hdr0 = \<lparr>h_flags = 0, h_hlen = 0, h_src = 0, h_dst = 0, h_dlen = 0, h_seq = 0, h_ack = 0,
           h_window = 0, h_som = 0, h_fcnt = 0\<rparr>"

definition snd0 :: ArdpSndBuf where
  "snd0 = \<lparr>sb_data = 0, sb_datalen = 0, sb_hdr = hdr0, sb_timer = None, sb_ttl = 0,
           sb_tStart = 0, sb_onTheWire = False, sb_inUse = False, sb_hdrlen = 0\<rparr>"

definition rcv0 :: ArdpRcvBuf where
  "rcv0 = \<lparr>rb_seq = 499, rb_datalen = 0, rb_inUse = False, rb_isDelivered = True, rb_som = 0,
           rb_fcnt = 0, rb_timer = None\<rparr>"

definition conn0 :: ArdpConnRecord where
  "conn0 = \<lparr>STATE = OPEN, c_passive = False,
            SND_NXT = 1024, SND_UNA = 1024, SND_MAX = 4, SND_ISS = 1023,
            SBUF_MAX = 158, SBUF_snd = [snd0, snd0, snd0, snd0], SBUF_maxDlen = 100,
            SBUF_pending = 0,
            RCV_CUR = 499, RCV_MAX = 4, RCV_IRS = 499,
            RBUF_MAX = 1024, RBUF_rcv = [rcv0, rcv0, rcv0, rcv0],
            RBUF_first = 500, RBUF_last = 500, RBUF_window = 4,
            local = 7, foreign = 9, window = 4, minSendWindow = 4,
            sndHdrLen = 30, rcvHdrLen = 30,
            rcvMsk_mask = [0], rcvMsk_sz = 0, rcvMsk_fixedSz = 1, remoteMskSz = 1,
            lastSeen = 0, timers = []\<rparr>"

definition handle0 :: ArdpHandle where
  "handle0 = \<lparr>config = \<lparr>connectTimeout = 10000, persistTimeout = 5000, probeTimeout = 5000,
                         timewait = 1000\<rparr>,
              cb = \<lparr>AcceptCb = True, ConnectCb = True, DisconnectCb = True, RecvCb = True,
                     SendCb = True, SendWindowCb = True\<rparr>,
              accepting = True, conns = [(10, conn0)]\<rparr>"

text \<open>A world whose clock stands at 1000 ms, whose socket sends and whose user accepts.\<close>

definition world0 :: world where
  "world0 = \<lparr>clock = (\<lambda>n. 1000), ticks = 0, sockSend = (\<lambda>n. Sent), nsend = 0,
             recvAnswer = (\<lambda>n. True), nrecv = 0, trace = [], nextTimer = 0\<rparr>"

text \<open>What the socket was handed, in order: payload pointer and payload length.\<close>

fun sent_payloads :: "event list \<Rightarrow> (nat \<times> u32) list" where
  "sent_payloads [] = []"
| "sent_payloads (EvSendMsg h p n r # es) = (p, n) # sent_payloads es"
| "sent_payloads (e # es) = sent_payloads es"

text \<open>The \<open>SendCb\<close> calls of a trace, in order.\<close>

fun send_callbacks :: "event list \<Rightarrow> (nat \<times> u32 \<times> QStatus) list" where
  "send_callbacks [] = []"
| "send_callbacks (EvSendCb p n st # es) = (p, n, st) # send_callbacks es"
| "send_callbacks (e # es) = send_callbacks es"

text \<open>
  \<open>conn0\<close> after a 150-byte message at address 7 went out as the two fragments 1024
  (100 bytes) and 1025 (50 bytes) and each was retransmitted until one retry is left.
\<close>

definition frag_hdr :: "u32 \<Rightarrow> u16 \<Rightarrow> ArdpHeader" where
  "frag_hdr seq dlen =
     \<lparr>h_flags = 0x62, h_hlen = 15, h_src = 7, h_dst = 9, h_dlen = dlen, h_seq = seq,
      h_ack = 499, h_window = 4, h_som = 1024, h_fcnt = 2\<rparr>"

definition frag_slot :: "u32 \<Rightarrow> u16 \<Rightarrow> nat \<Rightarrow> ArdpSndBuf" where
  "frag_slot seq dlen tid =
     \<lparr>sb_data = 7, sb_datalen = ucast dlen, sb_hdr = frag_hdr seq dlen, sb_timer = Some tid,
      sb_ttl = 0, sb_tStart = 1000, sb_onTheWire = True, sb_inUse = True, sb_hdrlen = 30\<rparr>"

definition frag_timer :: "nat \<Rightarrow> u32 \<Rightarrow> ArdpTimer" where
  "frag_timer tid deadline =
     \<lparr>t_id = tid, t_handler = Some H_Retransmit, t_type = RETRANSMIT_TIMER,
      t_context = CtxSnd tid, t_delta = 500, t_when = deadline, t_retry = 1\<rparr>"

definition conn_frag :: ArdpConnRecord where
  "conn_frag = conn0\<lparr>SND_NXT := 1026, SBUF_pending := 2,
                      SBUF_snd := [frag_slot 1024 100 0, frag_slot 1025 50 1, snd0, snd0],
                      timers := [frag_timer 0 3500, frag_timer 1 3125]\<rparr>"

text \<open>
  \<open>conn0\<close> later in its life: the segments 1020 to 1023 were sent and acknowledged, so
  every slot has been on the wire once and is free again.
\<close>

definition used_slot :: "u32 \<Rightarrow> ArdpSndBuf" where
  "used_slot seq =
     \<lparr>sb_data = 5, sb_datalen = 20,
      sb_hdr = \<lparr>h_flags = 0x42, h_hlen = 15, h_src = 7, h_dst = 9, h_dlen = 20, h_seq = seq,
                h_ack = 499, h_window = 4, h_som = seq, h_fcnt = 1\<rparr>,
      sb_timer = None, sb_ttl = 0, sb_tStart = 900, sb_onTheWire = True, sb_inUse = False,
      sb_hdrlen = 30\<rparr>"

definition conn_reused :: ArdpConnRecord where
  "conn_reused = conn0\<lparr>SBUF_snd := [used_slot 1020, used_slot 1021, used_slot 1022,
                                      used_slot 1023]\<rparr>"

text \<open>A world in which 20 ms pass between the first and the second reading of the clock.\<close>

definition world_late :: world where
  "world_late = world0\<lparr>clock := (\<lambda>n. if n = 0 then 1000 else 1020)\<rparr>"

text \<open>
  The first data segment after the handshake: sequence 500, five bytes, not fragmented.
  \<open>conn_rcv1\<close> is \<open>conn0\<close> after that segment was added in order and accepted by the user.
\<close>

definition seg1 :: ArdpSeg where
  "seg1 = \<lparr>seg_SEQ = 500, seg_ACK = 1023, seg_SOM = 500, seg_FCNT = 1, seg_DLEN = 5,
            seg_WINDOW = 4, seg_FLG = 0x42\<rparr>"

definition conn_rcv1 :: ArdpConnRecord where
  "conn_rcv1 = conn0\<lparr>RCV_CUR := 500, RBUF_window := 3,
       RBUF_rcv := [\<lparr>rb_seq = 500, rb_datalen = 5, rb_inUse = True, rb_isDelivered = True,
                     rb_som = 500, rb_fcnt = 1, rb_timer = None\<rparr>, rcv0, rcv0, rcv0]\<rparr>"

text \<open>
  A data segment four sequence numbers ahead of the one sitting unreleased in
  \<open>conn_rcv1\<close>: it maps to the same slot of the ring of four.
\<close>

definition seg_far :: ArdpSeg where
  "seg_far = seg1\<lparr>seg_SEQ := 504, seg_SOM := 504\<rparr>"






















section \<open>Properties of the send path\<close>

lemma conn_at_None_iff: "conn_at handle conn = None \<longleftrightarrow> \<not> IsConnValid handle conn"
  by (auto simp: conn_at_def IsConnValid_def map_of_eq_None_iff)

lemma conn_store_same: "map_of cs conn = Some c \<Longrightarrow> conn_store conn c cs = cs"
  by (induction cs) (auto split: if_splits)

lemma conn_update_same: "conn_at handle conn = Some c \<Longrightarrow> conn_update handle conn c = handle"
  by (simp add: conn_at_def conn_update_def conn_store_same split: if_splits)

lemma conn_at_handle0: "conn_at handle0 10 = Some conn0"
  by (simp add: conn_at_def IsConnValid_def handle0_def)

lemma not_valid_handle0: "\<not> IsConnValid handle0 11"
  by (simp add: IsConnValid_def handle0_def)

lemma STATE_conn0: "STATE conn0 = OPEN"
  by (simp add: conn0_def)

lemma conn0_fields:
  "SND_NXT conn0 = 1024" "SND_UNA conn0 = 1024" "SND_MAX conn0 = 4" "window conn0 = 4"
  "SBUF_maxDlen conn0 = 100"
  by (simp_all add: conn0_def)

text \<open>
  C10. \<open>ARDP_Send\<close> with a NULL buffer or a zero length returns \<open>ER_INVALID_DATA\<close> and
  leaves the handle and the world (socket, callbacks, clock reads) as they were. That
  check comes second: on a pointer that is not on the connection list, or on a
  connection that is not OPEN, the result is \<open>ER_ARDP_INVALID_STATE\<close> whatever the buffer
  and length are, again with nothing changed.
\<close>

theorem ARDP_Send_argument_checks:
  "(conn_at handle conn = Some c \<and> STATE c = OPEN \<and> (buf = 0 \<or> len = 0)
      \<longrightarrow> ARDP_Send dbg handle conn buf len ttl w = Inr (ER_INVALID_DATA, handle, w))
   \<and> ((\<not> IsConnValid handle conn \<or> (conn_at handle conn = Some c \<and> STATE c \<noteq> OPEN))
      \<longrightarrow> ARDP_Send dbg handle conn buf len ttl w = Inr (ER_ARDP_INVALID_STATE, handle, w))"
  by (auto simp: ARDP_Send_def conn_at_None_iff[symmetric] split: option.splits)

text \<open>
  C10 at concrete inputs: a NULL buffer on the OPEN connection at address 10, and a NULL
  buffer of length 0 on the address 11, which is not a connection.
\<close>

theorem ARDP_Send_argument_checks_witness:
  "ARDP_Send False handle0 10 0 5 0 world0 = Inr (ER_INVALID_DATA, handle0, world0)
   \<and> ARDP_Send False handle0 11 0 0 0 world0 = Inr (ER_ARDP_INVALID_STATE, handle0, world0)"
  using ARDP_Send_argument_checks [of handle0 10 conn0 0 5 False 0 world0]
        ARDP_Send_argument_checks [of handle0 11 conn0 0 0 False 0 world0]
        conn_at_handle0 not_valid_handle0 STATE_conn0
  by simp

lemma SendData_window_full:
  "SND_MAX c \<le> SND_NXT c - SND_UNA c
     \<Longrightarrow> SendData dbg handle c buf len ttl w = Inr (ER_ARDP_BACKPRESSURE, c, w)"
  by (simp add: SendData_def Let_def leD)

lemma SendData_fragments_exceed_window:
  assumes "SND_NXT c - SND_UNA c < SND_MAX c" and "ucast (SBUF_maxDlen c) < len"
    and "SBUF_maxDlen c \<noteq> 0" and "ucast (frag_count len (SBUF_maxDlen c)) \<le> SND_MAX c"
    and "window c < frag_count len (SBUF_maxDlen c)"
  shows "SendData dbg handle c buf len ttl w = Inr (ER_ARDP_BACKPRESSURE, c, w)"
proof -
  have "\<not> len \<le> ucast (SBUF_maxDlen c)"
    and "\<not> SND_MAX c < ucast (frag_count len (SBUF_maxDlen c))"
    using assms by (simp_all add: not_le not_less)
  with assms show ?thesis by (simp add: SendData_def Let_def)
qed

text \<open>
  C5, as the code has it. On an OPEN connection and with a non-NULL, non-empty buffer,
  \<open>ARDP_Send\<close> returns \<open>ER_ARDP_BACKPRESSURE\<close> and leaves the handle and the world
  unchanged when \<open>SND.NXT - SND.UNA\<close> has reached \<open>SND.MAX\<close>, or when the peer's window is
  0, or when the message needs fragmenting and its fragment count exceeds the peer's
  window without exceeding \<open>SND.MAX\<close>.
\<close>

theorem ARDP_Send_backpressure:
  assumes c: "conn_at handle conn = Some c" and op: "STATE c = OPEN"
    and buf: "buf \<noteq> 0" and len: "len \<noteq> 0"
    and bp: "SND_MAX c \<le> SND_NXT c - SND_UNA c \<or> window c = 0
         \<or> (ucast (SBUF_maxDlen c) < len \<and> SBUF_maxDlen c \<noteq> 0
             \<and> ucast (frag_count len (SBUF_maxDlen c)) \<le> SND_MAX c
             \<and> window c < frag_count len (SBUF_maxDlen c))"
  shows "ARDP_Send dbg handle conn buf len ttl w = Inr (ER_ARDP_BACKPRESSURE, handle, w)"
proof (cases "window c = 0 \<or> ucast (window c) \<le> SND_NXT c - SND_UNA c")
  case True
  then show ?thesis using c op buf len by (simp add: ARDP_Send_def)
next
  case False
  have "SendData dbg handle c buf len ttl w = Inr (ER_ARDP_BACKPRESSURE, c, w)"
  proof (cases "SND_NXT c - SND_UNA c < SND_MAX c")
    case True
    with bp False show ?thesis by (auto intro: SendData_fragments_exceed_window dest: leD)
  next
    case False
    then show ?thesis by (simp add: SendData_window_full)
  qed
  with False c op buf len show ?thesis
    by (simp add: ARDP_Send_def conn_update_same)
qed

text \<open>
  C5 at concrete inputs, one for each of the three conditions: a peer window of 0; four
  segments outstanding with \<open>SND.MAX = 4\<close>; a 250-byte message (three fragments) against a
  peer window of 2.
\<close>

theorem ARDP_Send_backpressure_witness:
  "ARDP_Send False (handle0\<lparr>conns := [(10, conn0\<lparr>window := 0\<rparr>)]\<rparr>) 10 7 50 0 world0
     = Inr (ER_ARDP_BACKPRESSURE, handle0\<lparr>conns := [(10, conn0\<lparr>window := 0\<rparr>)]\<rparr>, world0)
   \<and> ARDP_Send False (handle0\<lparr>conns := [(10, conn0\<lparr>SND_NXT := 1028\<rparr>)]\<rparr>) 10 7 50 0 world0
     = Inr (ER_ARDP_BACKPRESSURE, handle0\<lparr>conns := [(10, conn0\<lparr>SND_NXT := 1028\<rparr>)]\<rparr>, world0)
   \<and> ARDP_Send False (handle0\<lparr>conns := [(10, conn0\<lparr>window := 2\<rparr>)]\<rparr>) 10 7 250 0 world0
     = Inr (ER_ARDP_BACKPRESSURE, handle0\<lparr>conns := [(10, conn0\<lparr>window := 2\<rparr>)]\<rparr>, world0)"
proof -
  have a: "conn_at (handle0\<lparr>conns := [(10, c)]\<rparr>) 10 = Some c" for c
    by (simp add: conn_at_def IsConnValid_def)
  have f: "frag_count 250 100 = 3" by (simp add: frag_count_def)
  show ?thesis
    using ARDP_Send_backpressure [OF a, of "conn0\<lparr>window := 0\<rparr>" 7 50 False 0 world0]
          ARDP_Send_backpressure [OF a, of "conn0\<lparr>SND_NXT := 1028\<rparr>" 7 50 False 0 world0]
          ARDP_Send_backpressure [OF a, of "conn0\<lparr>window := 2\<rparr>" 7 250 False 0 world0]
    by (simp add: STATE_conn0 conn0_fields f)
qed

text \<open>
  C5 as stated fails where the fragment count exceeds both the peer's window and
  \<open>SND.MAX\<close>: 500 bytes with a 100-byte payload limit are five fragments, the window and
  \<open>SND.MAX\<close> are 4, and the call ends in \<open>ER_FAIL\<close>.
\<close>

theorem ARDP_Send_backpressure_counterexample:
  "window conn0 < frag_count 500 (SBUF_maxDlen conn0)
   \<and> ARDP_Send False handle0 10 7 500 0 world0 = Inr (ER_FAIL, handle0, world0)"
  by (simp add: ARDP_Send_def SendData_def conn_at_handle0 STATE_conn0 conn0_fields frag_count_def
        conn_update_same)

text \<open>
  C3 at the failing input. A 200-byte payload with a 100-byte limit is cut into two
  fragments; the first carries 100 bytes and the second, whose length is
  \<open>200 % 100\<close>, carries none. Both point at the start of the buffer.
\<close>

theorem SendData_exact_multiple_empty_last_fragment:
  "(case SendData False handle0 conn0 7 200 0 world0 of
      Inl f \<Rightarrow> False
    | Inr (st, c, w) \<Rightarrow>
        st = ER_OK \<and> frag_count 200 (SBUF_maxDlen conn0) = 2
        \<and> sent_payloads (trace w) = [(7, 100), (7, 0)]
        \<and> map (h_dlen \<circ> sb_hdr) (take 2 (SBUF_snd c)) = [100, 0])"
  by code_simp

text \<open>
  A slot that has never been on the wire behaves as C4 says: with a ttl of 10 ms and
  20 ms on the clock between the slot being filled and \<open>SendMsgData\<close>, the send ends in
  \<open>ER_ARDP_TTL_EXPIRED\<close>, the socket is not touched, and the sequence number, the pending
  count, the slot's \<open>inUse\<close> flag and the timer list stay as they were.
\<close>

lemma SendData_ttl_expired_fresh_slot:
  "(case SendData False handle0 conn0 7 50 10 world_late of
      Inl f \<Rightarrow> False
    | Inr (st, c, w) \<Rightarrow>
        st = ER_ARDP_TTL_EXPIRED \<and> trace w = [] \<and> SND_NXT c = 1024 \<and> SBUF_pending c = 0
        \<and> map sb_inUse (SBUF_snd c) = [False, False, False, False] \<and> timers c = [])"
  by code_simp

text \<open>
  C4 at the failing input. The slot that the new segment 1024 goes into was used by
  segment 1020 and still has \<open>onTheWire\<close> set, which nothing clears. The ttl is 10 ms and
  20 ms pass before \<open>SendMsgData\<close> reads the clock, yet the segment is handed to the
  socket, the call returns \<open>ER_OK\<close>, \<open>SND.NXT\<close> and \<open>pending\<close> go up, the slot is in use
  and a retransmit timer is armed.
\<close>

theorem SendData_ttl_elapsed_reused_slot_sends:
  "(case SendData False handle0 conn_reused 7 50 10 world_late of
      Inl f \<Rightarrow> False
    | Inr (st, c, w) \<Rightarrow>
        st = ER_OK \<and> sent_payloads (trace w) = [(7, 50)] \<and> SND_NXT c = 1025
        \<and> SBUF_pending c = 1 \<and> sb_inUse (SBUF_snd c ! 0)
        \<and> map t_type (timers c) = [RETRANSMIT_TIMER])"
  by code_simp

section \<open>Properties of acknowledgement and retransmission\<close>

text \<open>
  C2 at the failing input. The two fragments 1024 and 1025 of one message (\<open>som = 1024\<close>,
  \<open>fcnt = 2\<close>) are outstanding and the cumulative ACK 1025 arrives. Both slots are
  flushed, \<open>pending\<close> falls to 0 and \<open>SND.UNA\<close> moves to 1026, but no \<open>SendCb\<close> is made:
  the test \<open>seq != som + fcnt\<close> skips the callback for every fragment of the message.
\<close>

theorem FlushAckedSegments_fragmented_no_SendCb:
  "(case OPEN_process_ack handle0 conn_frag 1025 world0 of
      Inl f \<Rightarrow> False
    | Inr (c, w) \<Rightarrow>
        map sb_inUse (SBUF_snd c) = [False, False, False, False] \<and> SBUF_pending c = 0
        \<and> SND_UNA c = 1026 \<and> timers c = [] \<and> send_callbacks (trace w) = [])"
  by code_simp

text \<open>
  C1 at the failing input. The same two fragments are outstanding (\<open>pending = 2\<close>,
  \<open>SND.NXT - SND.UNA = 2\<close>) when the retransmit timer of the second one fires with its
  last retry. The handler takes \<open>pending\<close> down twice for each of the two slots, so the
  16-bit counter wraps to 65534, above \<open>SND.MAX = 4\<close>, while \<open>SND.NXT - SND.UNA\<close> is still
  2. The result is the same with and without assertions.
\<close>

theorem RetransmitTimerHandler_abandon_pending_wraps:
  "(case RetransmitTimerHandler True handle0 conn_frag 1 world0 of
      Inl f \<Rightarrow> False
    | Inr (c, w) \<Rightarrow>
        SBUF_pending c = 65534 \<and> SND_MAX c = 4 \<and> SND_NXT c - SND_UNA c = 2
        \<and> send_callbacks (trace w) = [(7, 150, ER_FAIL)])
   \<and> (case RetransmitTimerHandler False handle0 conn_frag 1 world0 of
      Inl f \<Rightarrow> False
    | Inr (c, w) \<Rightarrow>
        SBUF_pending c = 65534 \<and> SND_MAX c = 4 \<and> SND_NXT c - SND_UNA c = 2
        \<and> send_callbacks (trace w) = [(7, 150, ER_FAIL)])"
  by code_simp

section \<open>Properties of the receive path\<close>

lemma UpdateRcvBuffers_loop_frame:
  "UpdateRcvBuffers_loop n dbg consumed conn = Inr c' \<Longrightarrow>
     RBUF_last c' = RBUF_last conn \<and> RCV_MAX c' = RCV_MAX conn
     \<and> RBUF_first c' = RBUF_first conn + of_nat n"
proof (induction n arbitrary: consumed conn)
  case 0
  then show ?case by simp
next
  case (Suc n)
  let ?c = "conn\<lparr>RBUF_rcv := (RBUF_rcv conn)
                      [consumed := (RBUF_rcv conn ! consumed)\<lparr>rb_inUse := False,
                                                                 rb_isDelivered := False\<rparr>],
                    RBUF_first := RBUF_first conn + 1\<rparr>"
  from Suc.prems have "UpdateRcvBuffers_loop n dbg (rcv_next conn consumed) ?c = Inr c'"
    by (simp split: if_splits)
  from Suc.IH [OF this] show ?case by simp
qed

lemma frag_mark_frame:
  "frag_mark n fragment conn = Inr c' \<Longrightarrow>
     RBUF_first c' = RBUF_first conn \<and> RBUF_last c' = RBUF_last conn"
proof (induction n arbitrary: fragment conn)
  case 0
  then show ?case by simp
next
  case (Suc n)
  let ?c = "conn\<lparr>RBUF_rcv := (RBUF_rcv conn)
                      [fragment := (RBUF_rcv conn ! fragment)\<lparr>rb_isDelivered := True\<rparr>]\<rparr>"
  from Suc.prems have "frag_mark n (rcv_next conn fragment) ?c = Inr c'"
    by (simp split: if_splits)
  from Suc.IH [OF this] show ?case by simp
qed

lemma defer_delivery_frame:
  "defer_delivery conn w current ctx = (c', w') \<Longrightarrow>
     RBUF_first c' = RBUF_first conn \<and> RBUF_last c' = RBUF_last conn"
  by (auto simp: defer_delivery_def AddTimer_def TimeNow_def Let_def split: prod.splits)

lemma AddRcvBuffer_iter_frame:
  assumes "AddRcvBuffer_iter dbg handle seg current deliver conn w = Inr (d, c', w')"
  shows "RBUF_first c' = RBUF_first conn \<and> RBUF_last c' = RBUF_last conn"
  using assms unfolding AddRcvBuffer_iter_def Let_def
  apply (simp split: if_splits sum.splits prod.splits)
  apply (auto dest!: frag_mark_frame defer_delivery_frame)
  done

lemma AddRcvBuffer_walk_frame:
  "AddRcvBuffer_walk dbg handle seg current delta deliver conn w = Inr (d', c', w') \<Longrightarrow>
     RBUF_first c' = RBUF_first conn \<and> RBUF_last c' = RBUF_last conn \<and> RCV_MAX c' = RCV_MAX conn"
proof (induction dbg handle seg current delta deliver conn w rule: AddRcvBuffer_walk.induct)
  case (1 dbg handle seg current delta deliver conn w)
  from "1.prems" obtain deliver1 c1 w1
    where it: "AddRcvBuffer_iter dbg handle seg current deliver conn w = Inr (deliver1, c1, w1)"
    by (subst (asm) AddRcvBuffer_walk.simps) (auto split: sum.splits)
  note f1 = AddRcvBuffer_iter_frame [OF it] and s1 = AddRcvBuffer_iter_seqs [OF it]
  show ?case
  proof (cases "RCV_MAX c1 \<noteq> 0 \<and> rcv_next c1 current < length (RBUF_rcv c1)
                \<and> rb_seq (RBUF_rcv c1 ! rcv_next c1 current) = seg_SEQ seg + (delta + 1)")
    case True
    with "1.prems" it
    have rec: "AddRcvBuffer_walk dbg handle seg (rcv_next c1 current) (delta + 1) deliver1 c1 w1
                 = Inr (d', c', w')"
      by (subst (asm) AddRcvBuffer_walk.simps) (simp add: not_le [symmetric])
    have "RBUF_first c' = RBUF_first c1 \<and> RBUF_last c' = RBUF_last c1 \<and> RCV_MAX c' = RCV_MAX c1"
      using True rec by (intro "1.IH" [OF it refl refl]) (simp_all add: not_le [symmetric])
    with f1 s1 show ?thesis by simp
  next
    case False
    with "1.prems" it have "c' = c1"
      by (subst (asm) AddRcvBuffer_walk.simps) (auto split: if_splits)
    with f1 s1 show ?thesis by simp
  qed
qed

lemma UpdateRcvMsk_frame:
  "UpdateRcvMsk conn delta = Inr c' \<Longrightarrow>
     RBUF_first c' = RBUF_first conn \<and> RBUF_last c' = RBUF_last conn \<and> RCV_MAX c' = RCV_MAX conn"
  by (auto simp: UpdateRcvMsk_def Let_def split: if_splits sum.splits)

lemma AddRcvMsk_frame:
  "AddRcvMsk dbg conn delta = Inr c' \<Longrightarrow>
     RBUF_first c' = RBUF_first conn \<and> RBUF_last c' = RBUF_last conn \<and> RCV_MAX c' = RCV_MAX conn"
  by (auto simp: AddRcvMsk_def Let_def split: if_splits)

lemma AddRcvBuffer_deliver_frame:
  assumes "AddRcvBuffer_deliver dbg handle seg index previous ordered c1 w = Inr (c4, w4)"
  shows "RBUF_first c4 = RBUF_first c1 \<and> RBUF_last c4 = RBUF_last c1 \<and> RCV_MAX c4 = RCV_MAX c1"
  using assms unfolding AddRcvBuffer_deliver_def
  by (auto split: if_splits sum.splits prod.splits
           dest!: AddRcvBuffer_walk_frame UpdateRcvMsk_frame AddRcvMsk_frame)

text \<open>
  In 32-bit arithmetic, as the fields are, both functions assign the window by the
  formula: a call of \<open>AddRcvBuffer\<close> that stores the segment ends with
  \<open>RBUF.window = RCV.MAX - ((RBUF.last - RBUF.first) + 1)\<close>, a call of \<open>UpdateRcvBuffers\<close>
  that releases ends with that or, when \<open>RBUF.last\<close> lies before the advanced
  \<open>RBUF.first\<close>, with \<open>RBUF.window = RCV.MAX\<close> and \<open>RBUF.last = RBUF.first\<close>. Neither
  function bounds \<open>(RBUF.last - RBUF.first) + 1\<close> by \<open>RCV.MAX\<close>.
\<close>

lemma window_assigned_by_formula:
  "(AddRcvBuffer dbg handle conn seg len ordered w = Inr (st, c', w') \<longrightarrow>
      (st = ER_OK \<and> RBUF_window c' = RCV_MAX c' - ((RBUF_last c' - RBUF_first c') + 1)
         \<and> RCV_MAX c' = RCV_MAX conn \<and> RBUF_first c' = RBUF_first conn
         \<and> RBUF_last c' = (if SEQ32_LT (RBUF_last conn) (seg_SEQ seg) then seg_SEQ seg
                            else RBUF_last conn))
      \<or> (st = ER_FAIL \<and> c' = conn \<and> w' = w))
   \<and> (UpdateRcvBuffers dbg conn consumed = Inr (st2, c2) \<longrightarrow>
      (st2 = ER_OK \<and> RCV_MAX c2 = RCV_MAX conn
         \<and> (if SEQ32_LT (RBUF_last conn) (RBUF_first c2)
             then RBUF_window c2 = RCV_MAX c2 \<and> RBUF_last c2 = RBUF_first c2
             else RBUF_window c2 = RCV_MAX c2 - ((RBUF_last c2 - RBUF_first c2) + 1)
                  \<and> RBUF_last c2 = RBUF_last conn))
      \<or> (st2 = ER_FAIL \<and> c2 = conn))"
proof (intro conjI impI)
  assume a: "AddRcvBuffer dbg handle conn seg len ordered w = Inr (st, c', w')"
  show "(st = ER_OK \<and> RBUF_window c' = RCV_MAX c' - ((RBUF_last c' - RBUF_first c') + 1)
         \<and> RCV_MAX c' = RCV_MAX conn \<and> RBUF_first c' = RBUF_first conn
         \<and> RBUF_last c' = (if SEQ32_LT (RBUF_last conn) (seg_SEQ seg) then seg_SEQ seg
                            else RBUF_last conn))
      \<or> (st = ER_FAIL \<and> c' = conn \<and> w' = w)"
    using a unfolding AddRcvBuffer_def Let_def
    by (auto simp: AddRcvBuffer_store_def split: if_splits sum.splits prod.splits
             dest!: AddRcvBuffer_deliver_frame)
next
  assume u: "UpdateRcvBuffers dbg conn consumed = Inr (st2, c2)"
  show "(st2 = ER_OK \<and> RCV_MAX c2 = RCV_MAX conn
         \<and> (if SEQ32_LT (RBUF_last conn) (RBUF_first c2)
             then RBUF_window c2 = RCV_MAX c2 \<and> RBUF_last c2 = RBUF_first c2
             else RBUF_window c2 = RCV_MAX c2 - ((RBUF_last c2 - RBUF_first c2) + 1)
                  \<and> RBUF_last c2 = RBUF_last conn))
      \<or> (st2 = ER_FAIL \<and> c2 = conn)"
    using u unfolding UpdateRcvBuffers_def Let_def
    by (auto split: if_splits sum.splits dest!: UpdateRcvBuffers_loop_frame)
qed

text \<open>
  C8 at the failing input. \<open>conn_rcv1\<close> satisfies the accounting: \<open>RCV.MAX = 4\<close>,
  \<open>RBUF.first = RBUF.last = 500\<close>, window 3, segment 500 delivered and not yet released
  in slot 0. Segment 504 arrives; it passes the two tests \<open>ArdpMachine\<close> makes in OPEN
  before it calls \<open>AddRcvBuffer\<close> (\<open>IN_RANGE(RCV.CUR + 1, RCV.MAX, SEQ)\<close> and
  \<open>SEQ32_LT(RCV.CUR, SEQ)\<close>). Without assertions \<open>AddRcvBuffer\<close> returns \<open>ER_OK\<close>, has
  overwritten the unreleased slot 0, and leaves \<open>RBUF.last = 504\<close> and
  \<open>RBUF.window = 4 - 5\<close>, which is 4294967295 in the unsigned field: five segments are
  accounted to a ring of four. With assertions the call stops at
  \<open>assert(!(current->inUse))\<close>.
\<close>

theorem AddRcvBuffer_beyond_window_wraps:
  "RBUF_window conn_rcv1 = 3 \<and> RCV_MAX conn_rcv1 = 4
   \<and> RBUF_first conn_rcv1 = 500 \<and> RBUF_last conn_rcv1 = 500
   \<and> rb_inUse (RBUF_rcv conn_rcv1 ! 0)
   \<and> IN_RANGE (RCV_CUR conn_rcv1 + 1) (RCV_MAX conn_rcv1) (seg_SEQ seg_far)
   \<and> SEQ32_LT (RCV_CUR conn_rcv1) (seg_SEQ seg_far)
   \<and> (case AddRcvBuffer False handle0 conn_rcv1 seg_far 35 False world0 of
         Inl f \<Rightarrow> False
       | Inr (st, c, w) \<Rightarrow>
           st = ER_OK \<and> RCV_MAX c = 4 \<and> RBUF_first c = 500 \<and> RBUF_last c = 504
           \<and> RBUF_window c = 4294967295
           \<and> map rb_seq (RBUF_rcv c) = [504, 499, 499, 499]
           \<and> map rb_inUse (RBUF_rcv c) = [True, False, False, False])
   \<and> (case AddRcvBuffer True handle0 conn_rcv1 seg_far 35 False world0 of
         Inl f \<Rightarrow> f = AssertFailed
       | Inr r \<Rightarrow> False)"
  by code_simp

text \<open>
  Without assertions the release of segment 500 goes through: the slot loses \<open>inUse\<close>
  and \<open>isDelivered\<close> and \<open>RBUF.first\<close> moves from 500 to 501.
\<close>

lemma UpdateRcvBuffers_release_without_assertions:
  "(case UpdateRcvBuffers False conn_rcv1 0 of
      Inl f \<Rightarrow> False
    | Inr (st, c) \<Rightarrow>
        st = ER_OK \<and> RBUF_first c = 501
        \<and> map rb_inUse (RBUF_rcv c) = [False, False, False, False]
        \<and> rb_isDelivered (RBUF_rcv c ! 0) = False)"
  by code_simp

text \<open>
  C9 at the failing input. Segment 500 (\<open>fcnt = 1\<close>) sits delivered in its slot,
  \<open>RBUF.first\<close> is 500, and the user hands the slot back. With assertions compiled in,
  \<open>assert(consumed->fcnt < 1)\<close> fails and nothing is released. The same slot with
  \<open>fcnt = 0\<close> passes that assertion and the call returns \<open>ER_OK\<close> having released
  nothing.
\<close>

theorem UpdateRcvBuffers_fcnt_assertion_inverted:
  "(case UpdateRcvBuffers True conn_rcv1 0 of
      Inl f \<Rightarrow> f = AssertFailed
    | Inr r \<Rightarrow> False)
   \<and> (case UpdateRcvBuffers True
             (conn_rcv1\<lparr>RBUF_rcv := (RBUF_rcv conn_rcv1)
                          [0 := (RBUF_rcv conn_rcv1 ! 0)\<lparr>rb_fcnt := 0\<rparr>]\<rparr>) 0 of
      Inl f \<Rightarrow> False
    | Inr (st, c) \<Rightarrow> st = ER_OK \<and> RBUF_first c = 500 \<and> rb_inUse (RBUF_rcv c ! 0))"
  by code_simp

section \<open>Properties of the timer pass\<close>




























section \<open>Properties of the receive loop\<close>












end
